theory Spec2Isabelle
  imports Complex_Main
begin

section \<open>Errors raised by the Python code\<close>

text \<open>
  Every exception the modelled code can raise is a constructor of \<open>error\<close>; a function
  that can raise returns a sum with the error on the left.
\<close>

datatype error =
    ZeroDivisionError
  | AssertionError
  | RuntimeError
  | UnboundLocalError
  | OverflowError
  | ValueError

section \<open>Gradient accumulation (src/levanter/modeling_utils.py)\<close>

subsection \<open>Arithmetic of jax.numpy, in exact arithmetic\<close>

text \<open>
  Losses are real numbers. A gradient is a pytree shaped like the model; trees of one
  shape, with leafwise addition (\<open>jax.tree_map(jnp.add, _, _)\<close>), leafwise division by a
  count and the all-zeros tree (\<open>jnp.zeros_like\<close>), are the elements of a real vector
  space, so the model and its gradients have a type \<open>'m\<close> of class \<open>real_vector\<close>
  (the source's type variable \<open>M\<close>). The reals are the instance with a single scalar leaf.

  Dividing by a count that is zero does not raise in jax.numpy: it yields nan (or an
  infinity). \<open>None\<close> stands for such a non-finite value.
\<close>

definition jnp_true_divide :: "'a::real_vector \<Rightarrow> nat \<Rightarrow> 'a option" where
  "jnp_true_divide x n = (if n = 0 then None else Some (x /\<^sub>R real n))"

text \<open>\<open>jnp.mean\<close> / \<open>hax.mean\<close> along one axis: the sum of the entries divided by their
  number; a non-finite entry makes the mean non-finite.\<close>

definition jnp_mean :: "'a::real_vector option list \<Rightarrow> 'a option" where
  "jnp_mean ys =
     (if None \<in> set ys then None
      else jnp_true_divide (sum_list (map the ys)) (length ys))"

subsection \<open>accumulate_gradients\<close>

text \<open>
  The loss-and-gradient function \<open>f\<close> is called once per example. To be able to say
  when \<open>f\<close> runs, every function that may call \<open>f\<close> threads a log of the examples
  \<open>f\<close> has been invoked on, in the order of the calls.
\<close>

type_synonym ('m, 'x) loss_and_grad = "'m \<Rightarrow> 'x \<Rightarrow> real \<times> 'm"

definition zero :: "real \<times> 'm::real_vector \<times> nat" where
  "zero = (0, 0, 0)"

definition compute_and_accumulate ::
  "('m::real_vector, 'x) loss_and_grad \<Rightarrow> 'm \<Rightarrow>
   (real \<times> 'm \<times> nat) \<times> 'x list \<Rightarrow> 'x \<Rightarrow> (real \<times> 'm \<times> nat) \<times> 'x list" where
  "compute_and_accumulate f model = (\<lambda>(acc, calls) input.
     let (loss, grad) = f model input;
         (acc_loss, acc_grad, n) = acc
     in ((loss + acc_loss, acc_grad + grad, n + 1), calls @ [input]))"

text \<open>Modelled from the spec: \<open>levanter.jax_utils.reduce\<close> is imported by
  modeling_utils.py but is not among the sources. It folds the function over the leading
  axis of the inputs, from the left, starting at the initial accumulator (``accumulate
  losses by summation and gradients by elementwise summation'').\<close>

definition reduce :: "('acc \<Rightarrow> 'x \<Rightarrow> 'acc) \<Rightarrow> 'acc \<Rightarrow> 'x list \<Rightarrow> 'acc" where
  "reduce fn init xs = foldl fn init xs"

definition accumulate_gradients ::
  "('m::real_vector, 'x) loss_and_grad \<Rightarrow> 'm \<Rightarrow> 'x list \<Rightarrow> 'x list \<Rightarrow>
   (real option \<times> 'm option) \<times> 'x list" where
  "accumulate_gradients f model inputs calls =
     (let ((total_loss, total_grad, total_n), calls') =
            reduce (compute_and_accumulate f model) (zero, calls) inputs
      in ((jnp_true_divide total_loss total_n, jnp_true_divide total_grad total_n), calls'))"

subsection \<open>accumulate_gradients_sharded\<close>

text \<open>
  A batch is the list of its examples along the leading axis. \<open>_reshape\<close> turns it
  into \<open>microbatch_size\<close> rows of \<open>num_micro_steps\<close> consecutive examples each
  (a row-major \<open>reshape\<close>). Sharding constraints, named scopes and axis mappings place
  data on devices and do not change values; they are left out.
\<close>

definition reshape_rows :: "nat \<Rightarrow> nat \<Rightarrow> 'x list \<Rightarrow> 'x list list" where
  "reshape_rows microbatch_size num_micro_steps x =
     map (\<lambda>i. take num_micro_steps (drop (i * num_micro_steps) x)) [0..<microbatch_size]"

text \<open>\<open>hax.vmap(g, axis=Microbatch)\<close>: \<open>g\<close> applied to every row.\<close>

fun vmap_rows ::
  "('r \<Rightarrow> 'x list \<Rightarrow> 'y \<times> 'x list) \<Rightarrow> 'r list \<Rightarrow> 'x list \<Rightarrow> 'y list \<times> 'x list" where
  "vmap_rows g [] calls = ([], calls)"
| "vmap_rows g (r # rs) calls =
     (let (y, calls') = g r calls;
          (ys, calls'') = vmap_rows g rs calls'
      in (y # ys, calls''))"

text \<open>
  \<open>data_axis_size\<close> is the size of a mesh axis and \<open>per_device_parallelism\<close> a number of
  examples: natural numbers. The integer division \<open>batch_size // microbatch_size\<close> raises
  ZeroDivisionError when the divisor is zero, and the \<open>assert\<close> raises AssertionError.
  The result is the value returned or the error raised, together with the log of the calls
  of \<open>f\<close> (started with the empty log).
\<close>

definition accumulate_gradients_sharded ::
  "('m::real_vector, 'x) loss_and_grad \<Rightarrow> 'm \<Rightarrow> 'x list \<Rightarrow> nat \<Rightarrow> nat \<Rightarrow>
   (error + (real option \<times> 'm option)) \<times> 'x list" where
  "accumulate_gradients_sharded f model inputs data_axis_size per_device_parallelism =
     (let batch_size = length inputs;
          microbatch_size = data_axis_size * per_device_parallelism
      in if microbatch_size = 0 then (Inl ZeroDivisionError, [])
         else
           let num_micro_steps = batch_size div microbatch_size
           in if num_micro_steps * microbatch_size \<noteq> batch_size then (Inl AssertionError, [])
              else
                let inputs' = reshape_rows microbatch_size num_micro_steps inputs;
                    (losses_grads, calls) = vmap_rows (accumulate_gradients f model) inputs' [];
                    losses = map fst losses_grads;
                    grads = map snd losses_grads;
                    grads = jnp_mean grads;
                    loss = jnp_mean losses
                in (Inr (loss, grads), calls))"

text \<open>The per-example losses and gradients of a batch: what one call of \<open>f\<close> per example
  returns.\<close>

definition losses_of :: "('m::real_vector, 'x) loss_and_grad \<Rightarrow> 'm \<Rightarrow> 'x list \<Rightarrow> real list" where
  "losses_of f model xs = map (\<lambda>x. fst (f model x)) xs"

definition grads_of :: "('m::real_vector, 'x) loss_and_grad \<Rightarrow> 'm \<Rightarrow> 'x list \<Rightarrow> 'm list" where
  "grads_of f model xs = map (\<lambda>x. snd (f model x)) xs"

text \<open>
  The spec's single full-batch computation: the mean over the whole batch of the per-example
  losses, and of the per-example gradients (the gradient of the mean loss).
\<close>

definition full_batch_loss_and_grad ::
  "('m::real_vector, 'x) loss_and_grad \<Rightarrow> 'm \<Rightarrow> 'x list \<Rightarrow> real option \<times> 'm option" where
  "full_batch_loss_and_grad f model xs =
     (jnp_mean (map Some (losses_of f model xs)), jnp_mean (map Some (grads_of f model xs)))"

section \<open>Cross-entropy loss (src/levanter/modeling_utils.py)\<close>

text \<open>
  A NamedArray with the \<open>Label\<close> axis is the list, over the positions of its other axes,
  of the vectors along \<open>Label\<close>; the logits and the targets have the same axes.

  \<open>hax.nn.logsumexp\<close>, \<open>hax.dot\<close> and \<open>hax.nn.one_hot\<close> are library functions: the
  logarithm of the sum of the exponentials along the axis (in exact arithmetic the shift by
  the maximum that a stable implementation applies cancels), the contraction of two arrays
  along the axis, and the vector that is 1 at the index and 0 elsewhere.
\<close>

definition logsumexp :: "real list \<Rightarrow> real" where
  "logsumexp xs = ln (sum_list (map exp xs))"

definition dot :: "real list \<Rightarrow> real list \<Rightarrow> real" where
  "dot xs ys = sum_list (map2 (*) xs ys)"

definition one_hot :: "nat \<Rightarrow> nat \<Rightarrow> real list" where
  "one_hot t n = map (\<lambda>i. if i = t then 1 else 0) [0..<n]"

text \<open>
  \<open>log_normalizers - pred_y\<close> broadcasts the normalizer of a position along \<open>Label\<close>.
\<close>

definition cross_entropy_loss_and_log_normalizers ::
  "real list list \<Rightarrow> real list list \<Rightarrow> real list \<times> real list" where
  "cross_entropy_loss_and_log_normalizers pred_y target_y =
     (let log_normalizers = map logsumexp pred_y;
          neg_log_normalized = map2 (\<lambda>c row. map (\<lambda>p. c - p) row) log_normalizers pred_y;
          loss = map2 dot target_y neg_log_normalized
      in (loss, log_normalizers))"

definition cross_entropy_loss :: "real list list \<Rightarrow> real list list \<Rightarrow> real list" where
  "cross_entropy_loss pred_y target_y =
     (let (loss, _) = cross_entropy_loss_and_log_normalizers pred_y target_y in loss)"

section \<open>The training loop (src/levanter/main/train_lm.py)\<close>

text \<open>
  The loop is modelled as a function from its configuration and its collaborators (libraries
  and parts of the repository that are not among the sources) to the outcome of the run:
  the error that ends it, or the list of the events a run performs that can be observed from
  outside (batches drawn and discarded, training steps, hook and checkpoint calls), in order.
\<close>

subsection \<open>Mixed precision\<close>

text \<open>
  An array carries the dtype it is stored in and its contents. As in the gradient
  accumulation the contents are taken in exact arithmetic: a cast changes the dtype of an
  array and leaves its value alone. A pytree (a model, its gradients, its updates) is the
  list of its leaves.
\<close>

datatype dtype = float16 | bfloat16 | float32 | float64

type_synonym 'a array = "dtype \<times> 'a"
type_synonym 'a pytree = "'a array list"

definition astype :: "dtype \<Rightarrow> 'a array \<Rightarrow> 'a array" where
  "astype d x = (d, snd x)"

text \<open>Modelled from the spec: \<open>jmp.Policy\<close> is a library type. It has three dtype slots,
  \<open>parameter\<close>, \<open>compute\<close> and \<open>output\<close>, and one cast per slot, which casts every
  (floating-point) leaf of its argument to the dtype of the slot.\<close>

record Policy =
  param_dtype :: dtype
  compute_dtype :: dtype
  output_dtype :: dtype

definition cast_to_compute :: "Policy \<Rightarrow> 'a pytree \<Rightarrow> 'a pytree" where
  "cast_to_compute mp tree = map (astype (compute_dtype mp)) tree"

definition cast_to_param :: "Policy \<Rightarrow> 'a pytree \<Rightarrow> 'a pytree" where
  "cast_to_param mp tree = map (astype (param_dtype mp)) tree"

definition cast_to_output :: "Policy \<Rightarrow> 'a array \<Rightarrow> 'a array" where
  "cast_to_output mp x = astype (output_dtype mp) x"

subsection \<open>StepInfo, hooks and observable events\<close>

text \<open>
  \<open>StepInfo(step, model, opt_state, loss, next_key, step_duration)\<close>: the snapshot handed to
  the hooks and to the checkpointer.
\<close>

datatype ('m, 'o, 'k) StepInfo =
  StepInfo (info_step: int) (info_model: 'm) (info_opt_state: 'o) (info_loss: real)
    (info_next_key: 'k) (info_step_duration: real)

text \<open>The callbacks that the two programs register as hooks.\<close>

datatype callback =
    pbar_logger
  | log_to_wandb
  | log_performance_stats
  | compute_validation_loss
  | wandb_xla_logger
  | checkpointer_on_step
  | save_hf_checkpoint_callback
  | compute_and_visualize_log_probs

text \<open>
  The observable events:
  \<^item> \<open>Seek b\<close>: the batch \<open>b\<close> is drawn from the data iterator and discarded;
  \<^item> \<open>TrainStep step b key\<close>: \<open>train_step\<close> runs at \<open>step\<close> on batch \<open>b\<close> with key \<open>key\<close>;
  \<^item> \<open>WandbLogPhase p step\<close>: \<open>wandb.log({"phase": p}, step=step)\<close>;
  \<^item> \<open>RunHooks info force\<close>: the call \<open>engine.run_hooks(info, force=force)\<close>;
  \<^item> \<open>Hook fn info\<close>: the dispatcher invokes the callback \<open>fn\<close> on \<open>info\<close>;
  \<^item> \<open>CheckpointerOnStep info force\<close>: the direct call
    \<open>checkpointer.on_step(info, force=force)\<close>;
  \<^item> \<open>SaveCheckpoint info tag\<close>: the call \<open>checkpointer.save_checkpoint(info, tag)\<close>.
\<close>

datatype ('m, 'o, 'k, 'b) event =
    Seek 'b
  | TrainStep int 'b 'k
  | WandbLogPhase nat int
  | RunHooks "('m, 'o, 'k) StepInfo" bool
  | Hook callback "('m, 'o, 'k) StepInfo"
  | CheckpointerOnStep "('m, 'o, 'k) StepInfo" bool
  | SaveCheckpoint "('m, 'o, 'k) StepInfo" string

text \<open>Modelled from the spec: \<open>TrainerHooks\<close> (levanter.trainer) is not among the
  sources. It is an ordered registry of pairs of a callback and a cadence \<open>every\<close>;
  \<open>add_hook\<close> appends a pair. \<open>run_hooks\<close> invokes, in registration order, every
  callback with \<open>step mod every = 0\<close>, passing the StepInfo; a dispatch with
  \<open>force = True\<close> invokes all callbacks regardless of cadence. The remainder by a
  cadence of zero raises ZeroDivisionError, as Python's \<open>%\<close> does.\<close>

type_synonym TrainerHooks = "(callback \<times> int) list"

definition add_hook :: "TrainerHooks \<Rightarrow> callback \<Rightarrow> int \<Rightarrow> TrainerHooks" where
  "add_hook engine fn every = engine @ [(fn, every)]"

fun run_hooks ::
  "TrainerHooks \<Rightarrow> ('m, 'o, 'k) StepInfo \<Rightarrow> bool \<Rightarrow> error + ('m, 'o, 'k, 'b) event list" where
  "run_hooks [] info force = Inr []"
| "run_hooks ((fn, every) # hooks) info force =
     (if force then
        (case run_hooks hooks info force of
           Inl e \<Rightarrow> Inl e
         | Inr events \<Rightarrow> Inr (Hook fn info # events))
      else if every = 0 then Inl ZeroDivisionError
      else if info_step info mod every = 0 then
        (case run_hooks hooks info force of
           Inl e \<Rightarrow> Inl e
         | Inr events \<Rightarrow> Inr (Hook fn info # events))
      else run_hooks hooks info force)"

text \<open>Python's \<open>range(start, stop)\<close> over the integers.\<close>

definition py_range :: "int \<Rightarrow> int \<Rightarrow> int list" where
  "py_range start stop = [start..stop - 1]"

subsection \<open>Configuration and collaborators\<close>

text \<open>
  The fields of \<open>config.trainer\<close> and of the two configuration classes that the programs
  read. The configuration classes extend the trainer's fields, so \<open>num_train_steps config\<close>
  stands for \<open>config.trainer.num_train_steps\<close>.
\<close>

record TrainerConfig =
  seed :: int
  num_train_steps :: int
  steps_per_eval :: int
  train_batch_size :: nat
  trainer_per_device_parallelism :: nat
  mp :: Policy

record TrainLmConfig = TrainerConfig +
  initialize_from_hf :: bool
  hf_save_path :: "string option"
  hf_save_steps :: int

text \<open>
  The collaborators both programs use. \<open>jrandom_split key n i\<close> is the \<open>i\<close>-th of the
  \<open>n\<close> keys of \<open>jrandom.split(key, n)\<close>. \<open>step_time step\<close> is the wall-clock duration
  that \<open>capture_time\<close> measures for the step: the one input of a run that differs from
  run to run.
\<close>

text \<open>Modelled from the spec: \<open>non_caching_cycle\<close> and the batch loaders are not among the
  sources. The data source is iterated indefinitely and is replayable, so a freshly created
  iterator is the stream of its batches, \<open>iter_data i\<close> being the \<open>i\<close>-th batch it
  yields, and the state of the iterator is the number of batches drawn so far.\<close>

record ('m, 'o, 'k, 'b) loop_env =
  PRNGKey :: "int \<Rightarrow> 'k"
  jrandom_split :: "'k \<Rightarrow> nat \<Rightarrow> nat \<Rightarrow> 'k"
  iter_data :: "nat \<Rightarrow> 'b"
  optimizer_init :: "'m \<Rightarrow> 'o"
  step_time :: "int \<Rightarrow> real"

text \<open>
  The collaborators of train_lm.py: the model class (\<open>model_build\<close>, \<open>model_call\<close>), the
  HuggingFace converter, the optimizer, equinox (\<open>filter_value_and_grad\<close>,
  \<open>apply_updates\<close>), haliax (\<open>hax_one_hot\<close>, \<open>hax_cross_entropy_loss\<close> with its mask and
  reduction axis, \<open>mean_scalar\<close> for \<open>hax.mean(_).scalar()\<close>) and \<open>grad_accum\<close>, the
  function \<open>accumulate_gradients_sharded\<close> of levanter.grad_accum that train_lm.py imports.
  They are assumed to return.
\<close>

text \<open>Modelled from the spec: \<open>config.trainer.maybe_load_checkpoint\<close> is not among the
  sources. If a checkpoint exists it restores \<open>(model, opt_state, rng_state, step_index)\<close>,
  otherwise it returns the sentinel for a fresh start; \<open>maybe_load_checkpoint env\<close> is what
  is found.\<close>

record ('a, 'o, 'k, 'b) train_lm_env = "('a pytree, 'o, 'k, 'b) loop_env" +
  model_build :: "'k \<Rightarrow> 'a pytree"
  load_pretrained :: "'a pytree"
  maybe_load_checkpoint :: "('a pytree \<times> 'o \<times> 'k \<times> int) option"
  model_call :: "'a pytree \<Rightarrow> 'b \<Rightarrow> 'k option \<Rightarrow> bool \<Rightarrow> 'a array"
  hax_one_hot :: "'b \<Rightarrow> dtype \<Rightarrow> 'a array"
  hax_cross_entropy_loss :: "'a array \<Rightarrow> 'a array \<Rightarrow> 'b \<Rightarrow> 'a array"
  mean_scalar :: "'a array \<Rightarrow> real"
  filter_value_and_grad ::
    "('a pytree \<Rightarrow> 'b \<Rightarrow> 'k \<Rightarrow> real) \<Rightarrow> 'a pytree \<Rightarrow> 'b \<Rightarrow> 'k \<Rightarrow> real \<times> 'a pytree"
  grad_accum ::
    "('a pytree \<Rightarrow> 'b \<Rightarrow> 'k \<Rightarrow> real \<times> 'a pytree) \<Rightarrow> 'a pytree \<Rightarrow> 'b \<Rightarrow> 'k \<Rightarrow> nat \<Rightarrow>
     real \<times> 'a pytree"
  optimizer_update :: "'a pytree \<Rightarrow> 'o \<Rightarrow> 'a pytree \<Rightarrow> 'a pytree \<times> 'o"
  apply_updates :: "'a pytree \<Rightarrow> 'a pytree \<Rightarrow> 'a pytree"

subsection \<open>The functions main defines\<close>

text \<open>
  The nested functions of \<open>main\<close>, with the variables of \<open>main\<close> they refer to as
  parameters. The \<open>print\<close> calls and the axis-mapping contexts are left out.
\<close>

definition compute_loss ::
  "('a, 'o, 'k, 'b) train_lm_env \<Rightarrow> TrainLmConfig \<Rightarrow> 'a pytree \<Rightarrow> 'b \<Rightarrow> 'k option \<Rightarrow> bool \<Rightarrow>
   'a array" where
  "compute_loss env config model example key inference =
     (let model = cast_to_compute (mp config) model;
          pred_y = model_call env model example key inference;
          pred_y = cast_to_output (mp config) pred_y;
          target_y = hax_one_hot env example (fst pred_y)
      in hax_cross_entropy_loss env pred_y target_y example)"

definition train_loss ::
  "('a, 'o, 'k, 'b) train_lm_env \<Rightarrow> TrainLmConfig \<Rightarrow> 'a pytree \<Rightarrow> 'b \<Rightarrow> 'k \<Rightarrow> real" where
  "train_loss env config model example key =
     mean_scalar env (compute_loss env config model example (Some key) False)"

definition train_step ::
  "('a, 'o, 'k, 'b) train_lm_env \<Rightarrow> TrainLmConfig \<Rightarrow> 'a pytree \<Rightarrow> 'o \<Rightarrow> 'b \<Rightarrow> 'k \<Rightarrow>
   real \<times> 'a pytree \<times> 'o" where
  "train_step env config model opt_state examples key =
     (let grad_loss = filter_value_and_grad env (train_loss env config);
          (loss, grads) = grad_accum env grad_loss model examples key (trainer_per_device_parallelism config);
          (updates, opt_state) = optimizer_update env grads opt_state model;
          model = apply_updates env model updates
      in (loss, model, opt_state))"

definition init_model_and_opt_state ::
  "('a, 'o, 'k, 'b) train_lm_env \<Rightarrow> TrainLmConfig \<Rightarrow> 'k \<Rightarrow> 'a pytree \<times> 'o" where
  "init_model_and_opt_state env config model_key =
     (let model = model_build env model_key;
          model = cast_to_param (mp config) model;
          opt_state = optimizer_init env model
      in (model, opt_state))"

text \<open>The hooks that \<open>main\<close> registers, in order (lines 226--268).\<close>

definition train_lm_hooks :: "TrainLmConfig \<Rightarrow> TrainerHooks" where
  "train_lm_hooks config =
     (let engine = [];
          engine = add_hook engine pbar_logger 1;
          engine = add_hook engine log_to_wandb 1;
          engine = add_hook engine log_performance_stats 1;
          engine = add_hook engine compute_validation_loss (steps_per_eval config);
          engine = add_hook engine wandb_xla_logger (steps_per_eval config);
          engine = add_hook engine checkpointer_on_step 1;
          engine = (if hf_save_path config \<noteq> None
                    then add_hook engine save_hf_checkpoint_callback (hf_save_steps config)
                    else engine);
          engine = add_hook engine compute_and_visualize_log_probs (steps_per_eval config)
      in engine)"

subsection \<open>main\<close>

text \<open>
  The variables the loop updates: the model, the optimizer state, the training key, the
  position of the data iterator, and \<open>step_loss\<close> and \<open>step_time\<close>, which \<open>main\<close>
  assigns before the loop ``in case num_train_steps == 0''.
\<close>

record ('m, 'o, 'k) loop_state =
  the_model :: 'm
  the_opt_state :: 'o
  the_training_key :: 'k
  batches_consumed :: nat
  the_step_loss :: real
  the_step_time :: real

fun train_lm_loop ::
  "('a, 'o, 'k, 'b) train_lm_env \<Rightarrow> TrainLmConfig \<Rightarrow> TrainerHooks \<Rightarrow> int list \<Rightarrow>
   ('a pytree, 'o, 'k) loop_state \<Rightarrow> ('a pytree, 'o, 'k, 'b) event list \<Rightarrow>
   error + ('a pytree, 'o, 'k) loop_state \<times> ('a pytree, 'o, 'k, 'b) event list" where
  "train_lm_loop env config engine [] s events = Inr (s, events)"
| "train_lm_loop env config engine (step # steps) s events =
     (let example = iter_data env (batches_consumed s);
          my_key = jrandom_split env (the_training_key s) 2 0;
          training_key = jrandom_split env (the_training_key s) 2 1;
          (jax_step_loss, model, opt_state) =
             train_step env config (the_model s) (the_opt_state s) example my_key;
          step_loss = jax_step_loss;
          info = StepInfo step model opt_state step_loss training_key (step_time env step)
      in case run_hooks engine info False of
           Inl e \<Rightarrow> Inl e
         | Inr hook_events \<Rightarrow>
             train_lm_loop env config engine steps
               \<lparr>the_model = model, the_opt_state = opt_state, the_training_key = training_key,
                batches_consumed = Suc (batches_consumed s), the_step_loss = step_loss,
                the_step_time = step_time env step\<rparr>
               (events @ [TrainStep step example my_key, RunHooks info False] @ hook_events))"

text \<open>
  Lines 284--313: the training loop over \<open>range(initial_step, num_train_steps)\<close>, then the
  forced dispatch of the hooks and the forced checkpoint on \<open>last_step\<close>.
\<close>

definition train_and_finalize ::
  "('a, 'o, 'k, 'b) train_lm_env \<Rightarrow> TrainLmConfig \<Rightarrow> TrainerHooks \<Rightarrow> int \<Rightarrow>
   ('a pytree, 'o, 'k) loop_state \<Rightarrow> ('a pytree, 'o, 'k, 'b) event list \<Rightarrow>
   error + ('a pytree, 'o, 'k, 'b) event list" where
  "train_and_finalize env config engine initial_step s events =
     (case train_lm_loop env config engine (py_range initial_step (num_train_steps config)) s
             events of
        Inl e \<Rightarrow> Inl e
      | Inr (s, events) \<Rightarrow>
          (let last_step = StepInfo (num_train_steps config) (the_model s) (the_opt_state s)
                             (the_step_loss s) (the_training_key s) (the_step_time s)
           in case run_hooks engine last_step True of
                Inl e \<Rightarrow> Inl e
              | Inr hook_events \<Rightarrow>
                  Inr (events @ [RunHooks last_step True] @ hook_events @
                       [CheckpointerOnStep last_step True])))"

text \<open>
  \<open>main\<close> of train_lm.py: the keys are derived from the seed; the model, optimizer state and
  training key come from the checkpoint if there is one, else from the HuggingFace checkpoint
  or from \<open>init_model_and_opt_state\<close>; on resume the data iterator is advanced by
  \<open>resume_step + 1\<close> batches. (\<open>filter_eval_shape\<close> only computes shapes, which the
  initialisation then overwrites.)
\<close>

definition train_lm_main ::
  "TrainLmConfig \<Rightarrow> ('a, 'o, 'k, 'b) train_lm_env \<Rightarrow> error + ('a pytree, 'o, 'k, 'b) event list" where
  "train_lm_main config env =
     (let key = PRNGKey env (seed config);
          data_key = jrandom_split env key 4 0;
          loader_key = jrandom_split env key 4 1;
          model_key = jrandom_split env key 4 2;
          training_key = jrandom_split env key 4 3;
          (model, opt_state, training_key, resume_step) =
            (case maybe_load_checkpoint env of
               Some (model, opt_state, training_key, step) \<Rightarrow>
                 (model, opt_state, training_key, Some step)
             | None \<Rightarrow>
                 if initialize_from_hf config then
                   (let model = load_pretrained env;
                        opt_state = optimizer_init env model
                    in (model, opt_state, training_key, None))
                 else
                   (let (model, opt_state) = init_model_and_opt_state env config model_key
                    in (model, opt_state, training_key, None)));
          engine = train_lm_hooks config;
          (seeks, initial_step) =
            (case resume_step of
               Some resume_step \<Rightarrow> (map nat (py_range 0 (resume_step + 1)), resume_step + 1)
             | None \<Rightarrow> ([], 0));
          s = \<lparr>the_model = model, the_opt_state = opt_state, the_training_key = training_key,
               batches_consumed = length seeks, the_step_loss = 0, the_step_time = 0\<rparr>
      in train_and_finalize env config engine initial_step s
           (map (\<lambda>i. Seek (iter_data env i)) seeks))"

section \<open>Two-phase instruction tuning (src/projects/instruction_tuning/instruction_tune.py)\<close>

text \<open>The fields of \<open>InstructionTuneConfig\<close> that \<open>main\<close> reads.\<close>

record InstructionTuneConfig = TrainerConfig +
  instruction_weight :: real
  ul2r_phase_fraction :: real

text \<open>
  The collaborators of instruction_tune.py. \<open>pjit_train_step\<close> is the compiled training
  step; \<open>itune_dataset\<close> is the list of examples that iterating the instruction dataset
  yields; \<open>shard_batch\<close> builds a batch from converted examples; \<open>prng_uniform key i\<close> is
  the \<open>i\<close>-th draw \<open>prng.uniform()\<close> of the numpy generator seeded with \<open>key\<close>.
\<close>

record ('m, 'o, 'k, 'b, 'e, 'd) instruction_tune_env = "('m, 'o, 'k, 'b) loop_env" +
  load_hf_gpt2_checkpoint :: 'm
  resize_vocab :: "'m \<Rightarrow> 'm"
  pjit_train_step :: "'m \<Rightarrow> 'o \<Rightarrow> 'b \<Rightarrow> 'k list \<Rightarrow> real \<times> 'm \<times> 'o"
  global_key_array :: "'k \<Rightarrow> nat \<Rightarrow> 'k list"
  itune_dataset :: "'e list"
  convert_to_decoder_only :: "'e \<Rightarrow> 'd"
  shard_batch :: "'d list \<Rightarrow> 'b"
  prng_uniform :: "'k \<Rightarrow> nat \<Rightarrow> real"

text \<open>
  \<open>int(config.trainer.num_train_steps * config.ul2r_phase_fraction)\<close> is arithmetic on
  Python floats, IEEE 754 binary64. A finite float is the real number it denotes, and an
  operation returns the exact result rounded to the nearest float, ties to even:
  \<open>round_to_double\<close>, with 53 significant bits, the exponent of the subnormal numbers below
  \<open>2 ^ - 1022\<close>, and \<open>None\<close> for a result beyond the largest float (an infinity).
\<close>

definition round_half_even :: "real \<Rightarrow> int" where
  "round_half_even q =
     (let f = \<lfloor>q\<rfloor>; d = q - of_int f
      in if d < 1 / 2 then f else if 1 / 2 < d then f + 1 else if even f then f else f + 1)"

definition pow2 :: "int \<Rightarrow> real" where
  "pow2 e = (if 0 \<le> e then 2 ^ nat e else 1 / 2 ^ nat (- e))"

definition round_to_double :: "real \<Rightarrow> real option" where
  "round_to_double x =
     (if x = 0 then Some 0
      else
        let e = max \<lfloor>log 2 \<bar>x\<bar>\<rfloor> (- 1022);
            ulp = pow2 (e - 52);
            r = of_int (round_half_even (x / ulp)) * ulp
        in if pow2 1024 \<le> \<bar>r\<bar> then None else Some r)"

text \<open>Python's \<open>int(x)\<close> of a finite float: truncation towards zero.\<close>

definition py_int :: "real \<Rightarrow> int" where
  "py_int x = (if 0 \<le> x then \<lfloor>x\<rfloor> else \<lceil>x\<rceil>)"

text \<open>
  \<open>int(n * x)\<close> for an int \<open>n\<close> and a float field \<open>x\<close>. The field holds the float
  nearest to the number written in the configuration (0.58 is held as
  \<open>5224175567749775 / 2 ^ 53\<close>), an infinity if that number is beyond the largest float.
  \<open>n\<close> is converted to a float (OverflowError if it is too large) and the product is rounded.
  \<open>int\<close> of an infinite product raises OverflowError, and \<open>int\<close> of \<open>0.0 * inf\<close>, which is
  not a number, raises ValueError.
\<close>

definition int_of_float_product :: "int \<Rightarrow> real \<Rightarrow> error + int" where
  "int_of_float_product n x =
     (case round_to_double (of_int n) of
        None \<Rightarrow> Inl OverflowError
      | Some n' \<Rightarrow>
          (case round_to_double x of
             None \<Rightarrow> if n' = 0 then Inl ValueError else Inl OverflowError
           | Some x' \<Rightarrow>
               (case round_to_double (n' * x') of
                  None \<Rightarrow> Inl OverflowError
                | Some p \<Rightarrow> Inr (py_int p))))"

text \<open>
  The variables the two phases and the batch sampler update. \<open>step\<close>, \<open>step_loss\<close> and
  \<open>step_time\<close> are unbound until the first iteration of a loop binds them, together:
  \<open>cur_step\<close> is \<open>None\<close> until then.
\<close>

record ('m, 'o, 'k, 'e) tune_state =
  cur_model :: 'm
  cur_opt_state :: 'o
  cur_training_key :: 'k
  cur_iter_data :: nat
  cur_prng_draws :: nat
  cur_iter_itune :: "'e list"
  cur_step :: "(int \<times> real \<times> real) option"

text \<open>The hooks that \<open>main\<close> registers, in order (lines 139--145).\<close>

definition instruction_tune_hooks :: "InstructionTuneConfig \<Rightarrow> TrainerHooks" where
  "instruction_tune_hooks config =
     (let engine = [];
          engine = add_hook engine pbar_logger 1;
          engine = add_hook engine log_to_wandb 1;
          engine = add_hook engine log_performance_stats 1;
          engine = add_hook engine wandb_xla_logger (steps_per_eval config);
          engine = add_hook engine checkpointer_on_step 1
      in engine)"

text \<open>\<open>next(iter_data)\<close>.\<close>

definition next_iter_data ::
  "('m, 'o, 'k, 'b, 'e, 'd) instruction_tune_env \<Rightarrow> ('m, 'o, 'k, 'e) tune_state \<Rightarrow>
   error + 'b \<times> ('m, 'o, 'k, 'e) tune_state" where
  "next_iter_data env s =
     Inr (iter_data env (cur_iter_data s), s\<lparr>cur_iter_data := Suc (cur_iter_data s)\<rparr>)"

text \<open>
  One \<open>next\<close> of the generator \<open>batch_sampler()\<close>: one uniform draw; below
  \<open>instruction_weight\<close> the batch is built from the next \<open>train_batch_size\<close> examples of
  the instruction dataset (a StopIteration inside a generator surfaces as RuntimeError),
  otherwise it is the next batch of \<open>iter_data\<close>.
\<close>

definition batch_sampler ::
  "('m, 'o, 'k, 'b, 'e, 'd) instruction_tune_env \<Rightarrow> InstructionTuneConfig \<Rightarrow> 'k \<Rightarrow>
   ('m, 'o, 'k, 'e) tune_state \<Rightarrow> error + 'b \<times> ('m, 'o, 'k, 'e) tune_state" where
  "batch_sampler env config itune_key s =
     (let u = prng_uniform env itune_key (cur_prng_draws s);
          s = s\<lparr>cur_prng_draws := Suc (cur_prng_draws s)\<rparr>
      in if u < instruction_weight config then
           (if length (cur_iter_itune s) < train_batch_size config then Inl RuntimeError
            else
              (let batch = map (convert_to_decoder_only env)
                             (take (train_batch_size config) (cur_iter_itune s));
                   s = s\<lparr>cur_iter_itune := drop (train_batch_size config) (cur_iter_itune s)\<rparr>
               in Inr (shard_batch env batch, s)))
         else next_iter_data env s)"

text \<open>
  The loop of a phase (lines 157--171 and 208--222): the two phases differ in the source of
  the batch and in the phase they log.
\<close>

fun training_phase ::
  "('m, 'o, 'k, 'b, 'e, 'd) instruction_tune_env \<Rightarrow> InstructionTuneConfig \<Rightarrow> TrainerHooks \<Rightarrow>
   nat \<Rightarrow> (('m, 'o, 'k, 'e) tune_state \<Rightarrow> error + 'b \<times> ('m, 'o, 'k, 'e) tune_state) \<Rightarrow>
   int list \<Rightarrow> ('m, 'o, 'k, 'e) tune_state \<Rightarrow> ('m, 'o, 'k, 'b) event list \<Rightarrow>
   error + ('m, 'o, 'k, 'e) tune_state \<times> ('m, 'o, 'k, 'b) event list" where
  "training_phase env config engine phase next_batch [] s events = Inr (s, events)"
| "training_phase env config engine phase next_batch (step # steps) s events =
     (case next_batch s of
        Inl e \<Rightarrow> Inl e
      | Inr (batch, s) \<Rightarrow>
          (let my_key = jrandom_split env (cur_training_key s) 2 0;
               training_key = jrandom_split env (cur_training_key s) 2 1;
               example_keys = global_key_array env my_key (train_batch_size config);
               (step_loss, model, opt_state) =
                  pjit_train_step env (cur_model s) (cur_opt_state s) batch example_keys;
               info = StepInfo step model opt_state step_loss training_key (step_time env step)
           in case run_hooks engine info False of
                Inl e \<Rightarrow> Inl e
              | Inr hook_events \<Rightarrow>
                  training_phase env config engine phase next_batch steps
                    (s\<lparr>cur_model := model, cur_opt_state := opt_state,
                       cur_training_key := training_key,
                       cur_step := Some (step, step_loss, step_time env step)\<rparr>)
                    (events @ [TrainStep step batch my_key, WandbLogPhase phase step,
                               RunHooks info False] @ hook_events)))"

text \<open>
  \<open>checkpointer.save_checkpoint(StepInfo(step, model, opt_state, step_loss, training_key,
  step_duration=step_time()), tag)\<close>; reading \<open>step\<close> before any iteration has bound it
  raises UnboundLocalError.
\<close>

definition save_checkpoint ::
  "('m, 'o, 'k, 'e) tune_state \<Rightarrow> string \<Rightarrow> error + ('m, 'o, 'k, 'b) event list" where
  "save_checkpoint s tag =
     (case cur_step s of
        None \<Rightarrow> Inl UnboundLocalError
      | Some (step, step_loss, step_duration) \<Rightarrow>
          Inr [SaveCheckpoint (StepInfo step (cur_model s) (cur_opt_state s) step_loss
                                 (cur_training_key s) step_duration) tag])"

text \<open>
  \<open>main\<close> of instruction_tune.py: \<open>ul2r_steps\<close> from the float product (line 154),
  phase 1 over \<open>range(ul2r_steps)\<close> on the batches of
  \<open>iter_data\<close>, the checkpoint \<open>ul2r_finished\<close> if phase 1 had a step, phase 2 over
  \<open>range(ul2r_steps, num_train_steps)\<close> on the batches of the sampler, and the checkpoint
  \<open>instruction_tuned\<close>.
\<close>

definition instruction_tune_main ::
  "InstructionTuneConfig \<Rightarrow> ('m, 'o, 'k, 'b, 'e, 'd) instruction_tune_env \<Rightarrow>
   error + ('m, 'o, 'k, 'b) event list" where
  "instruction_tune_main config env =
     (let key = PRNGKey env (seed config);
          ul2r_key = jrandom_split env key 3 0;
          itune_key = jrandom_split env key 3 1;
          training_key = jrandom_split env key 3 2;
          model = load_hf_gpt2_checkpoint env;
          model = resize_vocab env model;
          opt_state = optimizer_init env model;
          engine = instruction_tune_hooks config;
          s = \<lparr>cur_model = model, cur_opt_state = opt_state, cur_training_key = training_key,
               cur_iter_data = 0, cur_prng_draws = 0, cur_iter_itune = itune_dataset env,
               cur_step = None\<rparr>
      in case int_of_float_product (num_train_steps config) (ul2r_phase_fraction config) of
           Inl e \<Rightarrow> Inl e
         | Inr ul2r_steps \<Rightarrow>
             (case training_phase env config engine 1 (next_iter_data env)
                     (py_range 0 ul2r_steps) s [] of
                Inl e \<Rightarrow> Inl e
              | Inr (s, events) \<Rightarrow>
                  (case (if ul2r_steps > 0 then save_checkpoint s ''ul2r_finished''
                         else Inr []) of
                     Inl e \<Rightarrow> Inl e
                   | Inr saved \<Rightarrow>
                       (case training_phase env config engine 2
                               (batch_sampler env config itune_key)
                               (py_range ul2r_steps (num_train_steps config)) s
                               (events @ saved) of
                          Inl e \<Rightarrow> Inl e
                        | Inr (s, events) \<Rightarrow>
                            (case save_checkpoint s ''instruction_tuned'' of
                               Inl e \<Rightarrow> Inl e
                             | Inr saved \<Rightarrow> Inr (events @ saved))))))"

section \<open>Observations on a run\<close>

text \<open>Projections of a list of events: the forced calls, the discarded batches, the step
  and batch of every training step, the StepInfo of every dispatch of the hooks and its
  loss.\<close>

fun is_forced :: "('m, 'o, 'k, 'b) event \<Rightarrow> bool" where
  "is_forced (RunHooks info force) = force"
| "is_forced (CheckpointerOnStep info force) = force"
| "is_forced _ = False"

fun is_seek :: "('m, 'o, 'k, 'b) event \<Rightarrow> bool" where
  "is_seek (Seek b) = True"
| "is_seek _ = False"

fun trained :: "('m, 'o, 'k, 'b) event list \<Rightarrow> (int \<times> 'b) list" where
  "trained [] = []"
| "trained (TrainStep step batch key # events) = (step, batch) # trained events"
| "trained (e # events) = trained events"

fun step_infos :: "('m, 'o, 'k, 'b) event list \<Rightarrow> ('m, 'o, 'k) StepInfo list" where
  "step_infos [] = []"
| "step_infos (RunHooks info force # events) = info # step_infos events"
| "step_infos (e # events) = step_infos events"

definition step_losses :: "('m, 'o, 'k, 'b) event list \<Rightarrow> real list" where
  "step_losses events = map info_loss (step_infos events)"

text \<open>No registered hook has cadence zero.\<close>

definition cadences_ok :: "TrainerHooks \<Rightarrow> bool" where
  "cadences_ok engine = (filter (\<lambda>(fn, every). every = 0) engine = [])"

text \<open>
  The markers of a run of the two-phase program: the training steps, the phase logged for
  a step, and the tag and step of the checkpoints saved, in the order of the run.
\<close>

datatype marker = Trained int | Phase nat int | Checkpoint string int

fun markers :: "('m, 'o, 'k, 'b) event list \<Rightarrow> marker list" where
  "markers [] = []"
| "markers (TrainStep step batch key # events) = Trained step # markers events"
| "markers (WandbLogPhase phase step # events) = Phase phase step # markers events"
| "markers (SaveCheckpoint info tag # events) = Checkpoint tag (info_step info) # markers events"
| "markers (e # events) = markers events"

text \<open>
  The key of the batch sampler's generator (the second of the three keys split from the
  seed), whether the \<open>j\<close>-th draw of the sampler falls below \<open>instruction_weight\<close>, and
  the number of draws before the \<open>j\<close>-th that did.
\<close>

definition itune_key_of ::
  "InstructionTuneConfig \<Rightarrow> ('m, 'o, 'k, 'b, 'e, 'd) instruction_tune_env \<Rightarrow> 'k" where
  "itune_key_of config env = jrandom_split env (PRNGKey env (seed config)) 3 1"

definition draws_instruction ::
  "InstructionTuneConfig \<Rightarrow> ('m, 'o, 'k, 'b, 'e, 'd) instruction_tune_env \<Rightarrow> nat \<Rightarrow> bool" where
  "draws_instruction config env j \<longleftrightarrow>
     prng_uniform env (itune_key_of config env) j < instruction_weight config"

definition instruction_batches_before ::
  "InstructionTuneConfig \<Rightarrow> ('m, 'o, 'k, 'b, 'e, 'd) instruction_tune_env \<Rightarrow> nat \<Rightarrow> nat" where
  "instruction_batches_before config env j = length (filter (draws_instruction config env) [0..<j])"

text \<open>
  The batch that the \<open>j\<close>-th draw of the sampler selects, when phase 1 has drawn
  \<open>start\<close> batches from \<open>iter_data\<close>; and the markers of a phase over a list of steps.
\<close>

definition phase2_batch ::
  "InstructionTuneConfig \<Rightarrow> ('m, 'o, 'k, 'b, 'e, 'd) instruction_tune_env \<Rightarrow> nat \<Rightarrow> nat \<Rightarrow> 'b" where
  "phase2_batch config env start j =
     (if draws_instruction config env j then
        shard_batch env (map (convert_to_decoder_only env)
          (take (train_batch_size config)
             (drop (train_batch_size config * instruction_batches_before config env j)
                (itune_dataset env))))
      else iter_data env (start + (j - instruction_batches_before config env j)))"

definition step_markers :: "nat \<Rightarrow> int list \<Rightarrow> marker list" where
  "step_markers phase steps = concat (map (\<lambda>step. [Trained step, Phase phase step]) steps)"

text \<open>The tags of the checkpoints saved in a run.\<close>

fun marker_tags :: "marker list \<Rightarrow> string list" where
  "marker_tags [] = []"
| "marker_tags (Checkpoint tag step # ms) = tag # marker_tags ms"
| "marker_tags (m # ms) = marker_tags ms"

definition checkpoint_tags :: "('m, 'o, 'k, 'b) event list \<Rightarrow> string list" where
  "checkpoint_tags events = marker_tags (markers events)"

text \<open>
  Every leaf of a pytree is stored in the dtype \<open>d\<close>; and the dtypes of the leaves of the
  model in every StepInfo that a run hands to its hooks (the checkpointer among them).
\<close>

definition has_dtype :: "dtype \<Rightarrow> 'a pytree \<Rightarrow> bool" where
  "has_dtype d tree = list_all (\<lambda>x. fst x = d) tree"

definition model_dtypes :: "('a pytree, 'o, 'k, 'b) event list \<Rightarrow> dtype list list" where
  "model_dtypes events = map (\<lambda>info. map fst (info_model info)) (step_infos events)"

subsection \<open>Runs up to wall-clock time\<close>

text \<open>Erasing the measured durations from a StepInfo, an event, a loop state and the outcome
  of a loop: two runs that differ only in their timing agree after erasure.\<close>

definition erase_info :: "('m, 'o, 'k) StepInfo \<Rightarrow> ('m, 'o, 'k) StepInfo" where
  "erase_info info = StepInfo (info_step info) (info_model info) (info_opt_state info)
     (info_loss info) (info_next_key info) 0"

fun erase_event :: "('m, 'o, 'k, 'b) event \<Rightarrow> ('m, 'o, 'k, 'b) event" where
  "erase_event (RunHooks info force) = RunHooks (erase_info info) force"
| "erase_event (Hook fn info) = Hook fn (erase_info info)"
| "erase_event (CheckpointerOnStep info force) = CheckpointerOnStep (erase_info info) force"
| "erase_event (SaveCheckpoint info tag) = SaveCheckpoint (erase_info info) tag"
| "erase_event e = e"

definition erase_state :: "('m, 'o, 'k) loop_state \<Rightarrow> ('m, 'o, 'k) loop_state" where
  "erase_state s = s\<lparr>the_step_time := 0\<rparr>"

definition erase_run ::
  "error + ('m, 'o, 'k) loop_state \<times> ('m, 'o, 'k, 'b) event list \<Rightarrow>
   error + ('m, 'o, 'k) loop_state \<times> ('m, 'o, 'k, 'b) event list" where
  "erase_run r = map_sum id (\<lambda>(s, events). (erase_state s, map erase_event events)) r"

section \<open>An example configuration\<close>

text \<open>
  A small instance on which the model can be evaluated: four training steps, a checkpoint
  taken at step 1, keys that are natural numbers, batches \<open>10, 11, 12, ...\<close>, a model of
  one leaf, gradients in the dtype of the model, and updates that are added leaf by leaf in
  the dtype of the parameter they update.
\<close>

definition example_policy :: Policy where
  "example_policy = \<lparr>param_dtype = float32, compute_dtype = bfloat16, output_dtype = float32\<rparr>"

definition example_config :: TrainLmConfig where
  "example_config =
     \<lparr>seed = 0, num_train_steps = 4, steps_per_eval = 2, train_batch_size = 8,
      trainer_per_device_parallelism = 2, mp = example_policy,
      initialize_from_hf = False, hf_save_path = None, hf_save_steps = 10000\<rparr>"

definition example_env :: "(real, unit, nat, nat) train_lm_env" where
  "example_env =
     \<lparr>PRNGKey = nat, jrandom_split = (\<lambda>key n i. key * n + i), iter_data = (\<lambda>i. 10 + i),
      optimizer_init = (\<lambda>model. ()), step_time = (\<lambda>step. 1),
      model_build = (\<lambda>key. [(float16, real key)]), load_pretrained = [(float16, 0)],
      maybe_load_checkpoint = Some ([(float32, 1)], (), 5, 1),
      model_call = (\<lambda>model example key inference. (bfloat16, real example)),
      hax_one_hot = (\<lambda>example d. (d, 1)),
      hax_cross_entropy_loss = (\<lambda>pred_y target_y example. (fst pred_y, snd pred_y)),
      mean_scalar = snd,
      filter_value_and_grad = (\<lambda>f model example key. (f model example key, model)),
      grad_accum = (\<lambda>g model examples key n. g model examples key),
      optimizer_update = (\<lambda>grads opt_state model. (map (\<lambda>g. (fst g, - snd g / 10)) grads, opt_state)),
      apply_updates = (\<lambda>model updates. map2 (\<lambda>p u. (fst p, snd p + snd u)) model updates)\<rparr>"

text \<open>
  The example started from a HuggingFace checkpoint instead: no training checkpoint, two
  steps, pretrained weights stored in float16, a policy whose parameter dtype is float32.
\<close>

definition hf_example_config :: TrainLmConfig where
  "hf_example_config = example_config\<lparr>num_train_steps := 2, initialize_from_hf := True\<rparr>"

definition hf_example_env :: "(real, unit, nat, nat) train_lm_env" where
  "hf_example_env = example_env\<lparr>maybe_load_checkpoint := None\<rparr>"

text \<open>
  The two-phase scenario: ten steps, half of them in phase 1, batches of two examples, ten
  instruction examples, and uniform draws that alternate between 1/4 and 3/4.
\<close>

definition example_tune_config :: InstructionTuneConfig where
  "example_tune_config =
     \<lparr>seed = 0, num_train_steps = 10, steps_per_eval = 2, train_batch_size = 2,
      trainer_per_device_parallelism = 1, mp = example_policy,
      instruction_weight = 1 / 2, ul2r_phase_fraction = 1 / 2\<rparr>"

definition example_tune_env :: "(unit, unit, nat, nat list, nat, nat) instruction_tune_env" where
  "example_tune_env =
     \<lparr>PRNGKey = nat, jrandom_split = (\<lambda>key n i. key * n + i), iter_data = (\<lambda>i. [i]),
      optimizer_init = (\<lambda>model. ()), step_time = (\<lambda>step. 1),
      load_hf_gpt2_checkpoint = (), resize_vocab = (\<lambda>model. model),
      pjit_train_step = (\<lambda>model opt_state batch keys. (real (length batch), model, opt_state)),
      global_key_array = (\<lambda>key n. replicate n key),
      itune_dataset = [100, 101, 102, 103, 104, 105, 106, 107, 108, 109],
      convert_to_decoder_only = (\<lambda>example. 1000 + example),
      shard_batch = (\<lambda>batch. batch),
      prng_uniform = (\<lambda>key i. if even i then 1 / 4 else 3 / 4)\<rparr>"

section \<open>Properties of the gradient accumulation\<close>

lemma compute_and_accumulate_step:
  "compute_and_accumulate f model ((l, g, k), c) y =
     ((fst (f model y) + l, g + snd (f model y), Suc k), c @ [y])"
  by (simp add: compute_and_accumulate_def split_beta)

lemma reduce_compute_and_accumulate:
  "reduce (compute_and_accumulate f model) ((l, g, k), c) ys =
     ((l + sum_list (losses_of f model ys), g + sum_list (grads_of f model ys), k + length ys), c @ ys)"
  unfolding reduce_def
proof (induction ys arbitrary: l g k c)
  case Nil
  show ?case by (simp add: losses_of_def grads_of_def)
next
  case (Cons y ys)
  show ?case
    by (simp add: Cons.IH compute_and_accumulate_step losses_of_def grads_of_def algebra_simps)
qed

lemma accumulate_gradients_eq:
  "accumulate_gradients f model ys c =
     ((jnp_true_divide (sum_list (losses_of f model ys)) (length ys),
       jnp_true_divide (sum_list (grads_of f model ys)) (length ys)), c @ ys)"
  by (simp add: accumulate_gradients_def zero_def reduce_compute_and_accumulate)

lemma vmap_rows_accumulate:
  "vmap_rows (accumulate_gradients f model) rows c =
     (map (\<lambda>r. (jnp_true_divide (sum_list (losses_of f model r)) (length r),
                jnp_true_divide (sum_list (grads_of f model r)) (length r))) rows,
      c @ concat rows)"
  by (induction rows arbitrary: c) (simp_all add: accumulate_gradients_eq)

lemma concat_reshape_rows:
  "length xs = ms * n \<Longrightarrow> concat (reshape_rows ms n xs) = xs"
proof (induction ms arbitrary: xs rule: nat.induct)
  case zero
  then show ?case by (simp add: reshape_rows_def)
next
  case (Suc ms)
  have "reshape_rows (Suc ms) n xs = reshape_rows ms n xs @ [take n (drop (ms * n) xs)]"
    by (simp add: reshape_rows_def)
  moreover have "reshape_rows ms n xs = reshape_rows ms n (take (ms * n) xs)"
    unfolding reshape_rows_def
  proof (rule map_cong[OF refl])
    fix i assume "i \<in> set [0..<ms]"
    then have "i * n + n \<le> ms * n"
      by (metis Suc_leI atLeastLessThan_iff mult_Suc mult_le_mono1 set_upt add.commute)
    then show "take n (drop (i * n) xs) = take n (drop (i * n) (take (ms * n) xs))"
      by (simp add: drop_take min_def)
  qed
  moreover have "concat (reshape_rows ms n (take (ms * n) xs)) = take (ms * n) xs"
    using Suc.prems by (intro Suc.IH) simp
  moreover have "take n (drop (ms * n) xs) = drop (ms * n) xs"
    using Suc.prems by simp
  ultimately show ?case by simp
qed

lemma length_reshape_rows: "length (reshape_rows ms n xs) = ms"
  by (simp add: reshape_rows_def)

lemma length_row:
  "length xs = ms * n \<Longrightarrow> r \<in> set (reshape_rows ms n xs) \<Longrightarrow> length r = n"
proof -
  assume len: "length xs = ms * n" and "r \<in> set (reshape_rows ms n xs)"
  then obtain i where i: "i < ms" and r: "r = take n (drop (i * n) xs)"
    by (auto simp: reshape_rows_def)
  from i have "i * n + n \<le> ms * n"
    by (metis Suc_leI mult_Suc mult_le_mono1 add.commute)
  then show ?thesis using len r by simp
qed

lemma sum_list_scaleR_right:
  fixes h :: "'r \<Rightarrow> 'a::real_vector"
  shows "sum_list (map (\<lambda>r. c *\<^sub>R h r) rows) = c *\<^sub>R sum_list (map h rows)"
  by (induction rows) (simp_all add: scaleR_add_right)

lemma sum_list_map_concat:
  fixes h :: "'x \<Rightarrow> 'a::real_vector"
  shows "sum_list (map h (concat rows)) = sum_list (map (\<lambda>r. sum_list (map h r)) rows)"
  by (induction rows) simp_all

lemma mean_of_row_means:
  fixes h :: "'x \<Rightarrow> 'a::real_vector"
  assumes ms: "0 < ms" and len: "length rows = ms" and rows: "\<forall>r\<in>set rows. length r = n"
  shows "jnp_mean (map (\<lambda>r. jnp_true_divide (sum_list (map h r)) (length r)) rows) =
         jnp_true_divide (sum_list (map h (concat rows))) (ms * n)"
proof (cases "n = 0")
  case True
  from ms len obtain r where r: "r \<in> set rows" by (cases rows) auto
  with rows True have "jnp_true_divide (sum_list (map h r)) (length r) = None"
    by (simp add: jnp_true_divide_def)
  with r have "None \<in> set (map (\<lambda>r. jnp_true_divide (sum_list (map h r)) (length r)) rows)"
    by force
  then show ?thesis using True by (simp add: jnp_mean_def jnp_true_divide_def)
next
  case False
  have eq: "map (\<lambda>r. jnp_true_divide (sum_list (map h r)) (length r)) rows =
            map (\<lambda>r. Some (sum_list (map h r) /\<^sub>R real n)) rows"
    using rows False by (intro map_cong) (simp_all add: jnp_true_divide_def)
  have "sum_list (map (\<lambda>r. sum_list (map h r) /\<^sub>R real n) rows) =
        sum_list (map (\<lambda>r. sum_list (map h r)) rows) /\<^sub>R real n"
    by (rule sum_list_scaleR_right)
  also have "sum_list (map (\<lambda>r. sum_list (map h r)) rows) = sum_list (map h (concat rows))"
    by (simp add: sum_list_map_concat)
  finally have s: "sum_list (map (\<lambda>r. sum_list (map h r) /\<^sub>R real n) rows) =
        sum_list (map h (concat rows)) /\<^sub>R real n" .
  have "jnp_mean (map (\<lambda>r. Some (sum_list (map h r) /\<^sub>R real n)) rows) =
        Some ((sum_list (map h (concat rows)) /\<^sub>R real n) /\<^sub>R real ms)"
    using ms len by (auto simp add: jnp_mean_def jnp_true_divide_def comp_def s)
  then show ?thesis
    unfolding eq using ms False by (simp add: jnp_true_divide_def mult.commute)
qed

lemma sharded_value:
  assumes ms: "0 < data_axis_size * per_device_parallelism"
    and dv: "data_axis_size * per_device_parallelism dvd length xs"
  shows "accumulate_gradients_sharded f model xs data_axis_size per_device_parallelism =
     (Inr (jnp_true_divide (sum_list (losses_of f model xs)) (length xs),
           jnp_true_divide (sum_list (grads_of f model xs)) (length xs)), xs)"
proof -
  define ms where "ms = data_axis_size * per_device_parallelism"
  define n where "n = length xs div ms"
  have len: "length xs = ms * n" and len': "n * ms = length xs"
    using dv by (simp_all add: ms_def n_def)
  define rows where "rows = reshape_rows ms n xs"
  have cc: "concat rows = xs"
    unfolding rows_def using len by (rule concat_reshape_rows)
  have lr: "\<forall>r\<in>set rows. length r = n"
    unfolding rows_def using len by (auto dest: length_row)
  have lrows: "length rows = ms"
    by (simp add: rows_def length_reshape_rows)
  have pos: "0 < ms" using ms by (simp add: ms_def)
  have l: "jnp_mean (map (\<lambda>r. jnp_true_divide (sum_list (losses_of f model r)) (length r)) rows) =
           jnp_true_divide (sum_list (losses_of f model xs)) (length xs)"
    unfolding losses_of_def using mean_of_row_means[OF pos lrows lr, of "\<lambda>x. fst (f model x)"]
    by (simp add: cc len)
  have g: "jnp_mean (map (\<lambda>r. jnp_true_divide (sum_list (grads_of f model r)) (length r)) rows) =
           jnp_true_divide (sum_list (grads_of f model xs)) (length xs)"
    unfolding grads_of_def using mean_of_row_means[OF pos lrows lr, of "\<lambda>x. snd (f model x)"]
    by (simp add: cc len)
  have "accumulate_gradients_sharded f model xs data_axis_size per_device_parallelism =
        (Inr (jnp_mean (map (\<lambda>r. jnp_true_divide (sum_list (losses_of f model r)) (length r)) rows),
              jnp_mean (map (\<lambda>r. jnp_true_divide (sum_list (grads_of f model r)) (length r)) rows)),
         concat rows)"
    using pos len'
    by (simp add: accumulate_gradients_sharded_def Let_def vmap_rows_accumulate comp_def
        ms_def[symmetric] n_def[symmetric] rows_def[symmetric])
  then show ?thesis by (simp add: l g cc)
qed

lemma sharded_not_divisible:
  assumes "\<not> data_axis_size * per_device_parallelism dvd length xs"
  shows "accumulate_gradients_sharded f model xs data_axis_size per_device_parallelism =
     (Inl (if data_axis_size * per_device_parallelism = 0 then ZeroDivisionError else AssertionError), [])"
proof -
  have "length xs div (data_axis_size * per_device_parallelism) * (data_axis_size * per_device_parallelism) \<noteq> length xs"
    using assms by (metis dvd_triv_right)
  then show ?thesis
    by (simp add: accumulate_gradients_sharded_def Let_def)
qed

lemma full_batch_eq:
  "full_batch_loss_and_grad f model xs =
     (jnp_true_divide (sum_list (losses_of f model xs)) (length xs),
      jnp_true_divide (sum_list (grads_of f model xs)) (length xs))"
  by (auto simp add: full_batch_loss_and_grad_def jnp_mean_def comp_def losses_of_def grads_of_def)

lemma eight_examples: "length [a, b, c, d, e, f, g, h] = 8"
  by simp

lemma seven_examples: "length [a, b, c, d, e, f, g] = 7"
  by simp

text \<open>
  Claim C1. For positive \<open>data_axis_size\<close> and \<open>per_device_parallelism\<close> and a batch
  whose size \<open>B\<close> is a multiple of their product, accumulate_gradients_sharded raises
  nothing, calls \<open>f\<close> exactly once on every example, and returns the sum of the
  per-example losses divided by \<open>B\<close> and the sum of the per-example gradients divided by
  \<open>B\<close>: the divisor is the number of examples, not the number of microbatches. (For the
  empty batch both quotients are \<open>0 / 0\<close>, the non-finite value \<open>None\<close>.) The scenario of
  the spec, eight examples with loss and gradient \<open>i\<close> for example \<open>i\<close>, a data axis of
  size 2 and two examples per device, is the instance that follows the theorem: both means
  are 4.5.
\<close>

theorem accumulate_gradients_sharded_mean:
  assumes "0 < data_axis_size" and "0 < per_device_parallelism"
    and "data_axis_size * per_device_parallelism dvd length xs"
  shows "accumulate_gradients_sharded f model xs data_axis_size per_device_parallelism =
     (Inr (jnp_true_divide (sum_list (losses_of f model xs)) (length xs),
           jnp_true_divide (sum_list (grads_of f model xs)) (length xs)), xs)"
  using assms by (intro sharded_value) simp_all

theorem accumulate_gradients_sharded_mean_scenario:
  "(0::nat) < 2 \<and> (0::nat) < 2 \<and> (2::nat) * 2 dvd length [1, 2, 3, 4, 5, 6, 7, 8 :: real] \<and>
   accumulate_gradients_sharded (\<lambda>(model::real) x. (x, x)) 0 [1, 2, 3, 4, 5, 6, 7, 8] 2 2 =
     (Inr (Some 4.5, Some 4.5), [1, 2, 3, 4, 5, 6, 7, 8])"
proof -
  have d: "(2::nat) * 2 dvd length [1, 2, 3, 4, 5, 6, 7, 8 :: real]"
    unfolding eight_examples by simp
  show ?thesis
    using d accumulate_gradients_sharded_mean
      [OF _ _ d, of "\<lambda>(model::real) x. (x, x)" 0]
    by (simp add: jnp_true_divide_def losses_of_def grads_of_def)
qed

text \<open>
  Claim C2. When the batch size is not divisible by
  \<open>data_axis_size * per_device_parallelism\<close>, accumulate_gradients_sharded raises before
  \<open>f\<close> has been called on any example (the log of calls is empty): the \<open>assert\<close> fails,
  or, when the product is zero, the integer division before it does. When the batch size is
  divisible (and the two sizes are positive) no error is raised.
\<close>

theorem accumulate_gradients_sharded_divisibility:
  "(\<not> data_axis_size * per_device_parallelism dvd length xs \<longrightarrow>
      accumulate_gradients_sharded f model xs data_axis_size per_device_parallelism =
        (Inl (if data_axis_size * per_device_parallelism = 0
              then ZeroDivisionError else AssertionError), [])) \<and>
   (0 < data_axis_size \<and> 0 < per_device_parallelism \<and>
    data_axis_size * per_device_parallelism dvd length xs \<longrightarrow>
      (\<exists>v. accumulate_gradients_sharded f model xs data_axis_size per_device_parallelism =
        (Inr v, xs)))"
  using sharded_not_divisible[of data_axis_size per_device_parallelism xs f model]
    sharded_value[of data_axis_size per_device_parallelism xs f model]
  by simp

theorem accumulate_gradients_sharded_divisibility_witness:
  "\<not> (2::nat) * 2 dvd length [1, 2, 3, 4, 5, 6, 7 :: real] \<and>
   accumulate_gradients_sharded (\<lambda>(model::real) x. (x, x)) 0 [1, 2, 3, 4, 5, 6, 7] 2 2 =
     (Inl AssertionError, []) \<and>
   (0::nat) < 2 \<and> (2::nat) * 2 dvd length [1, 2, 3, 4, 5, 6, 7, 8 :: real] \<and>
   (\<exists>v. accumulate_gradients_sharded (\<lambda>(model::real) x. (x, x)) 0 [1, 2, 3, 4, 5, 6, 7, 8] 2 2 =
     (Inr v, [1, 2, 3, 4, 5, 6, 7, 8]))"
proof -
  have d: "(2::nat) * 2 dvd length [1, 2, 3, 4, 5, 6, 7, 8 :: real]"
    unfolding eight_examples by simp
  have nd: "\<not> (2::nat) * 2 dvd length [1, 2, 3, 4, 5, 6, 7 :: real]"
    unfolding seven_examples by simp
  show ?thesis
    using d nd accumulate_gradients_sharded_divisibility
      [of 2 2 "[1, 2, 3, 4, 5, 6, 7 :: real]" "\<lambda>(model::real) x. (x, x)" 0]
      accumulate_gradients_sharded_divisibility
      [of 2 2 "[1, 2, 3, 4, 5, 6, 7, 8 :: real]" "\<lambda>(model::real) x. (x, x)" 0]
    by simp
qed

text \<open>
  Claim C3. For a fixed \<open>f\<close>, model and non-empty batch, any two admissible values of
  \<open>per_device_parallelism\<close> give the same result (and the same calls of \<open>f\<close>); the
  result is also that of the run without microbatching, where \<open>per_device_parallelism\<close>
  is \<open>B / data_axis_size\<close> and the microbatch is the whole batch, and it is the
  full-batch mean loss and mean gradient.
\<close>

theorem accumulate_gradients_sharded_parallelism_invariant:
  assumes "xs \<noteq> []" and "0 < data_axis_size"
    and "0 < per_device_parallelism" and "0 < per_device_parallelism'"
    and "data_axis_size * per_device_parallelism dvd length xs"
    and "data_axis_size * per_device_parallelism' dvd length xs"
  shows "accumulate_gradients_sharded f model xs data_axis_size per_device_parallelism =
         accumulate_gradients_sharded f model xs data_axis_size per_device_parallelism' \<and>
         accumulate_gradients_sharded f model xs data_axis_size per_device_parallelism =
         accumulate_gradients_sharded f model xs data_axis_size (length xs div data_axis_size) \<and>
         fst (accumulate_gradients_sharded f model xs data_axis_size per_device_parallelism) =
         Inr (full_batch_loss_and_grad f model xs)"
proof -
  have d: "data_axis_size dvd length xs"
    using assms(5) by (rule dvd_mult_left)
  then have full: "data_axis_size * (length xs div data_axis_size) = length xs"
    by simp
  with assms(1) have pos: "0 < data_axis_size * (length xs div data_axis_size)"
    by simp
  show ?thesis
    using assms sharded_value[of data_axis_size per_device_parallelism xs f model]
      sharded_value[of data_axis_size per_device_parallelism' xs f model]
      sharded_value[OF pos, of xs f model] full
    by (simp add: full_batch_eq)
qed

theorem accumulate_gradients_sharded_parallelism_invariant_witness:
  "[1, 2, 3, 4, 5, 6, 7, 8 :: real] \<noteq> [] \<and> (0::nat) < 2 \<and> (0::nat) < 1 \<and>
   (2::nat) * 1 dvd length [1, 2, 3, 4, 5, 6, 7, 8 :: real] \<and>
   (2::nat) * 2 dvd length [1, 2, 3, 4, 5, 6, 7, 8 :: real] \<and>
   accumulate_gradients_sharded (\<lambda>(model::real) x. (x, x)) 0 [1, 2, 3, 4, 5, 6, 7, 8] 2 1 =
   accumulate_gradients_sharded (\<lambda>(model::real) x. (x, x)) 0 [1, 2, 3, 4, 5, 6, 7, 8] 2 2 \<and>
   accumulate_gradients_sharded (\<lambda>(model::real) x. (x, x)) 0 [1, 2, 3, 4, 5, 6, 7, 8] 2 1 =
   accumulate_gradients_sharded (\<lambda>(model::real) x. (x, x)) 0 [1, 2, 3, 4, 5, 6, 7, 8] 2 4 \<and>
   fst (accumulate_gradients_sharded (\<lambda>(model::real) x. (x, x)) 0 [1, 2, 3, 4, 5, 6, 7, 8] 2 1) =
   Inr (full_batch_loss_and_grad (\<lambda>(model::real) x. (x, x)) 0 [1, 2, 3, 4, 5, 6, 7, 8])"
proof -
  have d1: "(2::nat) * 1 dvd length [1, 2, 3, 4, 5, 6, 7, 8 :: real]"
    unfolding eight_examples by simp
  have d2: "(2::nat) * 2 dvd length [1, 2, 3, 4, 5, 6, 7, 8 :: real]"
    unfolding eight_examples by simp
  have full: "length [1, 2, 3, 4, 5, 6, 7, 8 :: real] div 2 = 4"
    unfolding eight_examples by simp
  have ne: "[1, 2, 3, 4, 5, 6, 7, 8 :: real] \<noteq> []" and p2: "(0::nat) < 2" and p1: "(0::nat) < 1"
    by simp_all
  note t = accumulate_gradients_sharded_parallelism_invariant
      [OF ne p2 p1 p2 d1 d2, of "\<lambda>(model::real) x. (x, x)" 0, unfolded full]
  from ne p2 p1 d1 d2 t show ?thesis by blast
qed

section \<open>Properties of the cross-entropy loss\<close>

lemma dot_one_hot: "t < length ys \<Longrightarrow> dot (one_hot t (length ys)) ys = ys ! t"
proof (induction ys arbitrary: t rule: rev_induct)
  case Nil
  then show ?case by simp
next
  case (snoc y ys)
  show ?case
  proof (cases "t = length ys")
    case True
    have "map2 (*) (map (\<lambda>i. if i = length ys then 1 else 0) [0..<length ys]) ys = map (\<lambda>y. 0) ys"
      by (rule nth_equalityI) simp_all
    then show ?thesis using True by (simp add: dot_def one_hot_def)
  next
    case False
    with snoc.prems have lt: "t < length ys" by simp
    from snoc.IH[OF lt] show ?thesis using lt
      by (simp add: dot_def one_hot_def nth_append)
  qed
qed

lemma exp_le_sum_list_exp:
  fixes p :: "real list"
  assumes "t < length p"
  shows "exp (p ! t) \<le> sum_list (map exp p)"
proof -
  from assms have "exp (p ! t) \<in> set (map exp p)"
    by (metis length_map nth_map nth_mem)
  moreover have "\<forall>x \<in> set (map exp p). 0 \<le> x"
    by auto
  ultimately show ?thesis
    by (intro member_le_sum_list) auto
qed

lemma logsumexp_ge:
  assumes t: "t < length p"
  shows "p ! t \<le> logsumexp p"
proof -
  have pos: "0 < exp (p ! t)"
    by simp
  with exp_le_sum_list_exp[OF t] have "0 < sum_list (map exp p)"
    by linarith
  with pos exp_le_sum_list_exp[OF t] have "ln (exp (p ! t)) \<le> ln (sum_list (map exp p))"
    by (subst ln_le_cancel_iff)
  then show ?thesis
    by (simp add: logsumexp_def)
qed

lemma dot_shift:
  assumes "t < length p"
  shows "dot (one_hot t (length p)) (map (\<lambda>x. c - x) p) = c - p ! t"
  using dot_one_hot[of t "map (\<lambda>x. c - x) p"] assms by simp

lemma cross_entropy_loss_eq:
  "cross_entropy_loss pred_y target_y =
     map2 (\<lambda>tgt p. dot tgt (map (\<lambda>x. logsumexp p - x) p)) target_y pred_y"
  by (simp add: cross_entropy_loss_def cross_entropy_loss_and_log_normalizers_def Let_def
      zip_map1 zip_map2 zip_same_conv_map split_beta comp_def)

lemma cross_entropy_one_hot:
  assumes len: "length ts = length pred_y"
    and ts: "\<forall>i < length pred_y. ts ! i < length (pred_y ! i)"
  shows "cross_entropy_loss pred_y (map2 (\<lambda>t p. one_hot t (length p)) ts pred_y) =
         map2 (\<lambda>t p. logsumexp p - p ! t) ts pred_y"
  unfolding cross_entropy_loss_eq
  by (rule nth_equalityI) (use len ts in \<open>simp_all add: dot_shift\<close>)

text \<open>
  Claim C10. For logits \<open>pred_y\<close> and one-hot targets that select, at every position, an
  index \<open>t\<close> of the \<open>Label\<close> axis, cross_entropy_loss returns at every position the
  logsumexp of the logits minus the logit at \<open>t\<close>, and none of these losses is negative.
\<close>

theorem cross_entropy_loss_one_hot:
  assumes "length ts = length pred_y"
    and "\<forall>i < length pred_y. ts ! i < length (pred_y ! i)"
  shows "cross_entropy_loss pred_y (map2 (\<lambda>t p. one_hot t (length p)) ts pred_y) =
           map2 (\<lambda>t p. logsumexp p - p ! t) ts pred_y \<and>
         filter (\<lambda>loss. loss < 0)
           (cross_entropy_loss pred_y (map2 (\<lambda>t p. one_hot t (length p)) ts pred_y)) = []"
proof -
  have nonneg: "0 \<le> logsumexp (pred_y ! i) - pred_y ! i ! (ts ! i)" if "i < length pred_y" for i
    using logsumexp_ge[of "ts ! i" "pred_y ! i"] assms(2) that by simp
  have "\<forall>loss \<in> set (map2 (\<lambda>t p. logsumexp p - p ! t) ts pred_y). \<not> loss < 0"
  proof
    fix loss
    assume "loss \<in> set (map2 (\<lambda>t p. logsumexp p - p ! t) ts pred_y)"
    then obtain i where "i < length pred_y" and "loss = logsumexp (pred_y ! i) - pred_y ! i ! (ts ! i)"
      using assms(1) by (auto simp: set_conv_nth)
    with nonneg[of i] show "\<not> loss < 0" by simp
  qed
  then have "filter (\<lambda>loss. loss < 0) (map2 (\<lambda>t p. logsumexp p - p ! t) ts pred_y) = []"
    by (simp add: filter_empty_conv)
  then show ?thesis
    by (simp add: cross_entropy_one_hot[OF assms])
qed

theorem cross_entropy_loss_one_hot_witness:
  "length [1, 0 :: nat] = length [[0, 0], [1, 1, 1 :: real]] \<and>
   [1, 0 :: nat] ! 0 < length ([[0, 0], [1, 1, 1 :: real]] ! 0) \<and>
   [1, 0 :: nat] ! 1 < length ([[0, 0], [1, 1, 1 :: real]] ! 1) \<and>
   cross_entropy_loss [[0, 0], [1, 1, 1]]
     (map2 (\<lambda>t p. one_hot t (length p)) [1, 0] [[0, 0], [1, 1, 1]]) = [ln 2, ln (3 * exp 1) - 1]"
proof -
  have a: "length [1, 0 :: nat] = length [[0, 0], [1, 1, 1 :: real]]"
    by simp
  have b: "\<forall>i < length [[0, 0], [1, 1, 1 :: real]]. [1, 0 :: nat] ! i < length ([[0, 0], [1, 1, 1 :: real]] ! i)"
    by (simp add: less_Suc_eq)
  from cross_entropy_loss_one_hot[OF a b] show ?thesis
    using a b by (simp add: logsumexp_def)
qed

section \<open>Properties of the training loop\<close>

lemma run_hooks_forced:
  "run_hooks engine info True = Inr (map (\<lambda>(fn, every). Hook fn info) engine)"
  by (induction engine) auto

lemma run_hooks_unforced:
  "cadences_ok engine \<Longrightarrow>
   run_hooks engine info False =
     Inr (map (\<lambda>(fn, every). Hook fn info)
            (filter (\<lambda>(fn, every). info_step info mod every = 0) engine))"
  by (induction engine) (auto simp: cadences_ok_def split: if_splits)

lemma trained_append: "trained (xs @ ys) = trained xs @ trained ys"
  by (induction xs rule: trained.induct) simp_all

lemma trained_hooks: "trained (map (\<lambda>(fn, every). Hook fn info) hs) = []"
  by (induction hs) auto

lemma filter_forced_hooks: "filter is_forced (map (\<lambda>(fn, every). Hook fn info) hs) = []"
  by (induction hs) auto

lemma filter_seek_hooks: "filter is_seek (map (\<lambda>(fn, every). Hook fn info) hs) = []"
  by (induction hs) auto

lemma upt_add_Suc: "[i..<i + Suc n] = i # [Suc i..<Suc i + n]"
  by (subst upt_rec) simp

lemma train_lm_loop_ok:
  assumes "cadences_ok engine"
  shows "\<exists>s' body. train_lm_loop env config engine steps s events = Inr (s', events @ body) \<and>
           filter is_forced body = [] \<and> filter is_seek body = [] \<and>
           trained body = zip steps (map (iter_data env) [batches_consumed s..<batches_consumed s + length steps])"
proof (induction steps arbitrary: s events)
  case Nil
  show ?case by simp
next
  case (Cons step steps)
  obtain l m o' where ts: "train_step env config (the_model s) (the_opt_state s)
      (iter_data env (batches_consumed s)) (jrandom_split env (the_training_key s) 2 0) = (l, m, o')"
    by (cases "train_step env config (the_model s) (the_opt_state s)
      (iter_data env (batches_consumed s)) (jrandom_split env (the_training_key s) 2 0)") auto
  define info where "info = StepInfo step m o' l (jrandom_split env (the_training_key s) 2 1) (step_time env step)"
  define s1 where "s1 = \<lparr>the_model = m, the_opt_state = o',
      the_training_key = jrandom_split env (the_training_key s) 2 1,
      batches_consumed = Suc (batches_consumed s), the_step_loss = l,
      the_step_time = step_time env step\<rparr>"
  define hs where "hs = map (\<lambda>(fn, every). Hook fn info :: ('a pytree, 'b, 'c, 'd) event)
            (filter (\<lambda>(fn, every). info_step info mod every = 0) engine)"
  define ev1 where "ev1 = events @ [TrainStep step (iter_data env (batches_consumed s))
       (jrandom_split env (the_training_key s) 2 0), RunHooks info False] @ hs"
  have step: "train_lm_loop env config engine (step # steps) s events =
        train_lm_loop env config engine steps s1 ev1"
    by (simp add: ts Let_def run_hooks_unforced[OF assms] info_def s1_def hs_def ev1_def)
  from Cons.IH[of s1 ev1] obtain s' body where
    r: "train_lm_loop env config engine steps s1 ev1 = Inr (s', ev1 @ body)"
    and f: "filter is_forced body = []" and k: "filter is_seek body = []"
    and t: "trained body = zip steps (map (iter_data env) [batches_consumed s1..<batches_consumed s1 + length steps])"
    by blast
  have bc: "batches_consumed s1 = Suc (batches_consumed s)" by (simp add: s1_def)
  let ?body = "[TrainStep step (iter_data env (batches_consumed s))
       (jrandom_split env (the_training_key s) 2 0), RunHooks info False] @ hs @ body"
  have "train_lm_loop env config engine (step # steps) s events = Inr (s', events @ ?body)"
    using step r by (simp add: ev1_def)
  moreover have "filter is_forced ?body = []"
    using f by (simp add: hs_def filter_forced_hooks)
  moreover have "filter is_seek ?body = []"
    using k by (simp add: hs_def filter_seek_hooks)
  moreover have "trained ?body = zip (step # steps)
      (map (iter_data env) [batches_consumed s..<batches_consumed s + length (step # steps)])"
  proof -
    have "[batches_consumed s..<batches_consumed s + length (step # steps)] =
          batches_consumed s # [batches_consumed s1..<batches_consumed s1 + length steps]"
      unfolding bc length_Cons by (rule upt_add_Suc)
    then show ?thesis
      using t by (simp add: hs_def trained_append trained_hooks)
  qed
  ultimately show ?case by blast
qed

lemma cadences_ok_train_lm_hooks:
  "cadences_ok (train_lm_hooks config) \<longleftrightarrow>
     steps_per_eval config \<noteq> 0 \<and> (hf_save_path config \<noteq> None \<longrightarrow> hf_save_steps config \<noteq> 0)"
  by (auto simp: cadences_ok_def train_lm_hooks_def add_hook_def Let_def)

lemma filter_forced_append_nil:
  "filter is_forced xs = [] \<Longrightarrow> filter is_forced ys = [] \<Longrightarrow> filter is_forced (xs @ ys) = []"
  by simp

lemma filter_seek_seeks: "filter is_seek (map (\<lambda>i. Seek (f i)) xs) = map (\<lambda>i. Seek (f i)) xs"
  by (induction xs) simp_all

lemma filter_forced_seeks: "filter is_forced (map (\<lambda>i. Seek (f i)) xs) = []"
  by (induction xs) simp_all

lemma trained_seeks: "trained (map (\<lambda>i. Seek (f i)) xs) = []"
  by (induction xs) simp_all

lemma train_and_finalize_ok:
  assumes ok: "cadences_ok engine"
  shows "\<exists>body last.
     train_and_finalize env config engine initial_step s events =
       Inr (events @ body @ [RunHooks last True] @ map (\<lambda>h. Hook (fst h) last) engine @
            [CheckpointerOnStep last True]) \<and>
     info_step last = num_train_steps config \<and>
     filter is_forced body = [] \<and> filter is_seek body = [] \<and>
     trained body = zip (py_range initial_step (num_train_steps config))
       (map (iter_data env) [batches_consumed s..<batches_consumed s +
          length (py_range initial_step (num_train_steps config))])"
proof -
  define steps where "steps = py_range initial_step (num_train_steps config)"
  from train_lm_loop_ok[OF ok, of env config steps s events] obtain s' body where
    r: "train_lm_loop env config engine steps s events = Inr (s', events @ body)"
    and f: "filter is_forced body = []" and k: "filter is_seek body = []"
    and t: "trained body = zip steps (map (iter_data env) [batches_consumed s..<batches_consumed s + length steps])"
    by blast
  define last where "last = StepInfo (num_train_steps config) (the_model s') (the_opt_state s')
                                (the_step_loss s') (the_training_key s') (the_step_time s')"
  have "train_and_finalize env config engine initial_step s events =
       Inr (events @ body @ [RunHooks last True] @ map (\<lambda>h. Hook (fst h) last) engine @
            [CheckpointerOnStep last True])"
    by (simp add: train_and_finalize_def steps_def[symmetric] r Let_def run_hooks_forced last_def
        case_prod_unfold)
  moreover have "info_step last = num_train_steps config"
    by (simp add: last_def)
  ultimately show ?thesis
    using f k t unfolding steps_def by blast
qed

lemma map_nat_upto: "map nat [0..int n - 1] = [0..<n]"
proof (induction n)
  case 0
  show ?case by simp
next
  case (Suc n)
  have "[0..int (Suc n) - 1] = [0..int n - 1] @ [int n]"
    by (simp add: upto_rec2)
  with Suc show ?case by simp
qed

lemma seeks_eq: "-1 \<le> r \<Longrightarrow> map nat (py_range 0 (r + 1)) = [0..<nat (r + 1)]"
  using map_nat_upto[of "nat (r + 1)"] by (simp add: py_range_def)

lemma zip_upto_stream:
  "0 \<le> a \<Longrightarrow> zip [a..b] (map f [nat a..<nat a + length [a..b]]) = map (\<lambda>i. (i, f (nat i))) [a..b]"
proof (induction a b rule: upto.induct)
  case (1 i j)
  show ?case
  proof (cases "i \<le> j")
    case True
    then have u: "[i..j] = i # [i + 1..j]" by (simp add: upto_rec1)
    have n: "nat (i + 1) = Suc (nat i)" using 1(2) by simp
    have "[nat i..<nat i + length [i..j]] = nat i # [nat (i + 1)..<nat (i + 1) + length [i + 1..j]]"
      unfolding u length_Cons n by (rule upt_add_Suc)
    moreover have "zip [i + 1..j] (map f [nat (i + 1)..<nat (i + 1) + length [i + 1..j]]) =
        map (\<lambda>i. (i, f (nat i))) [i + 1..j]"
      using 1(1)[OF True] 1(2) by simp
    ultimately show ?thesis
      by (subst (1 3) u) (simp del: upto.simps)
  next
    case False
    then show ?thesis by simp
  qed
qed

lemma train_lm_main_resume:
  assumes ck: "maybe_load_checkpoint env = Some (model, opt_state, rng_state, step_index)"
  shows "train_lm_main config env =
     train_and_finalize env config (train_lm_hooks config) (step_index + 1)
       \<lparr>the_model = model, the_opt_state = opt_state, the_training_key = rng_state,
        batches_consumed = length (map nat (py_range 0 (step_index + 1))),
        the_step_loss = 0, the_step_time = 0\<rparr>
       (map (\<lambda>i. Seek (iter_data env i)) (map nat (py_range 0 (step_index + 1))))"
  by (simp add: train_lm_main_def ck Let_def)

lemma train_lm_main_shape:
  "\<exists>s seeks initial_step. train_lm_main config env =
     train_and_finalize env config (train_lm_hooks config) initial_step s
       (map (\<lambda>i. Seek (iter_data env i)) seeks)"
  unfolding train_lm_main_def Let_def case_prod_unfold by blast

lemma trained_hooks': "trained (map (\<lambda>h. Hook (fst h) info) hs) = []"
  by (induction hs) auto

lemma filter_forced_hooks': "filter is_forced (map (\<lambda>h. Hook (fst h) info) hs) = []"
  by (induction hs) auto

lemma filter_seek_hooks': "filter is_seek (map (\<lambda>h. Hook (fst h) info) hs) = []"
  by (induction hs) auto

text \<open>
  Claim C4. When a checkpoint restores \<open>(model, opt_state, rng_state, step_index)\<close> (and no
  hook has cadence zero), the run starts by drawing and discarding exactly
  \<open>step_index + 1\<close> batches from the fresh data iterator, discards no batch afterwards, and
  its training steps are the steps \<open>step_index + 1, ..., num_train_steps - 1\<close>, step \<open>i\<close>
  on the \<open>i\<close>-th batch of the iterator.
\<close>

theorem train_lm_main_resume_seek:
  assumes "maybe_load_checkpoint env = Some (model, opt_state, rng_state, step_index)"
    and "0 \<le> step_index"
    and "steps_per_eval config \<noteq> 0"
    and "hf_save_path config \<noteq> None \<longrightarrow> hf_save_steps config \<noteq> 0"
  shows "\<exists>rest. train_lm_main config env =
           Inr (map (\<lambda>i. Seek (iter_data env i)) [0..<nat (step_index + 1)] @ rest) \<and>
         filter is_seek rest = [] \<and>
         trained rest = map (\<lambda>i. (i, iter_data env (nat i)))
                          (py_range (step_index + 1) (num_train_steps config))"
proof -
  have ok: "cadences_ok (train_lm_hooks config)"
    using assms(3,4) by (simp add: cadences_ok_train_lm_hooks)
  have sk: "map nat (py_range 0 (step_index + 1)) = [0..<nat (step_index + 1)]"
    using assms(2) by (intro seeks_eq) simp
  define s where "s = \<lparr>the_model = model, the_opt_state = opt_state, the_training_key = rng_state,
        batches_consumed = nat (step_index + 1), the_step_loss = 0, the_step_time = 0\<rparr>"
  define seeks :: "('a pytree, 'b, 'c, 'd) event list"
    where "seeks = map (\<lambda>i. Seek (iter_data env i)) [0..<nat (step_index + 1)]"
  have m: "train_lm_main config env =
      train_and_finalize env config (train_lm_hooks config) (step_index + 1) s seeks"
    by (simp add: train_lm_main_resume[OF assms(1)] sk s_def seeks_def)
  from train_and_finalize_ok[OF ok, of env config "step_index + 1" s seeks]
  obtain body last where
    r: "train_and_finalize env config (train_lm_hooks config) (step_index + 1) s seeks =
       Inr (seeks @ body @ [RunHooks last True] @
            map (\<lambda>h. Hook (fst h) last) (train_lm_hooks config) @ [CheckpointerOnStep last True])"
    and k: "filter is_seek body = []"
    and t: "trained body = zip (py_range (step_index + 1) (num_train_steps config))
       (map (iter_data env) [batches_consumed s..<batches_consumed s +
          length (py_range (step_index + 1) (num_train_steps config))])"
    by blast
  let ?rest = "body @ [RunHooks last True] @
            map (\<lambda>h. Hook (fst h) last) (train_lm_hooks config) @ [CheckpointerOnStep last True]"
  have bc: "batches_consumed s = nat (step_index + 1)"
    by (simp add: s_def)
  have z: "trained body = map (\<lambda>i. (i, iter_data env (nat i)))
                          (py_range (step_index + 1) (num_train_steps config))"
    unfolding t bc py_range_def using assms(2) by (intro zip_upto_stream) simp
  have "train_lm_main config env = Inr (seeks @ ?rest)"
    using m r by simp
  moreover have "filter is_seek ?rest = []"
    using k by (simp add: filter_seek_hooks')
  moreover have "trained ?rest = map (\<lambda>i. (i, iter_data env (nat i)))
                          (py_range (step_index + 1) (num_train_steps config))"
    using z by (simp add: trained_append trained_hooks')
  ultimately show ?thesis
    unfolding seeks_def by blast
qed

theorem train_lm_main_resume_seek_witness:
  "maybe_load_checkpoint example_env = Some ([(float32, 1)], (), 5, 1) \<and>
   steps_per_eval example_config \<noteq> 0 \<and> hf_save_path example_config = None \<and>
   (\<exists>rest. train_lm_main example_config example_env = Inr ([Seek 10, Seek 11] @ rest) \<and>
      filter is_seek rest = [] \<and> trained rest = [(2, 12), (3, 13)])"
proof -
  have c: "maybe_load_checkpoint example_env = Some ([(float32, 1)], (), 5, 1)"
    by (simp add: example_env_def)
  have e: "steps_per_eval example_config \<noteq> 0"
    and h: "hf_save_path example_config \<noteq> None \<longrightarrow> hf_save_steps example_config \<noteq> 0"
    by (simp_all add: example_config_def)
  have u: "[0..<nat (1 + 1)] = [0, 1]"
    by (simp add: upt_rec)
  have r: "py_range (1 + 1) (num_train_steps example_config) = [2, 3]"
    by (simp add: py_range_def example_config_def upto.simps)
  have i: "iter_data example_env = (\<lambda>i. 10 + i)"
    by (simp add: example_env_def)
  from train_lm_main_resume_seek[OF c _ e h, unfolded u r i]
  show ?thesis using c e by (simp add: example_config_def)
qed

text \<open>
  Claim C5. Whatever the number of training steps (zero included), a run whose hooks have
  non-zero cadences ends with one dispatch of the hooks with \<open>force = True\<close>, which invokes
  every registered callback once on the StepInfo of step \<open>num_train_steps\<close>, in registration
  order and regardless of its cadence (the checkpointer's \<open>on_step\<close> is one of them),
  followed by one call \<open>checkpointer.on_step(last_step, force=True)\<close>; nothing before that
  is forced.
\<close>

theorem train_lm_main_forced_finalization:
  assumes "steps_per_eval config \<noteq> 0"
    and "hf_save_path config \<noteq> None \<longrightarrow> hf_save_steps config \<noteq> 0"
  shows "\<exists>body last. train_lm_main config env =
           Inr (body @ [RunHooks last True] @
                map (\<lambda>h. Hook (fst h) last) (train_lm_hooks config) @
                [CheckpointerOnStep last True]) \<and>
         info_step last = num_train_steps config \<and>
         filter is_forced body = []"
proof -
  have ok: "cadences_ok (train_lm_hooks config)"
    using assms by (simp add: cadences_ok_train_lm_hooks)
  obtain s initial_step and seeks :: "nat list" where
    m: "train_lm_main config env =
     train_and_finalize env config (train_lm_hooks config) initial_step s
        (map (\<lambda>i. Seek (iter_data env i)) seeks)"
    using train_lm_main_shape[of config env] by blast
  from train_and_finalize_ok[OF ok, of env config initial_step s "map (\<lambda>i. Seek (iter_data env i)) seeks"]
  obtain body last where
    r: "train_and_finalize env config (train_lm_hooks config) initial_step s (map (\<lambda>i. Seek (iter_data env i)) seeks) =
       Inr (map (\<lambda>i. Seek (iter_data env i)) seeks @ body @ [RunHooks last True] @
            map (\<lambda>h. Hook (fst h) last) (train_lm_hooks config) @ [CheckpointerOnStep last True])"
    and l: "info_step last = num_train_steps config"
    and f: "filter is_forced body = []"
    by blast
  have "train_lm_main config env = Inr ((map (\<lambda>i. Seek (iter_data env i)) seeks @ body) @ [RunHooks last True] @
            map (\<lambda>h. Hook (fst h) last) (train_lm_hooks config) @ [CheckpointerOnStep last True])"
    using m r by simp
  moreover have "filter is_forced (map (\<lambda>i. Seek (iter_data env i)) seeks @ body) = []"
    using f by (simp add: filter_forced_seeks)
  ultimately show ?thesis using l by blast
qed

theorem train_lm_main_forced_finalization_witness:
  "steps_per_eval (example_config\<lparr>num_train_steps := 0\<rparr>) \<noteq> 0 \<and>
   hf_save_path (example_config\<lparr>num_train_steps := 0\<rparr>) = None \<and>
   (\<exists>body last.
      train_lm_main (example_config\<lparr>num_train_steps := 0\<rparr>)
        (example_env\<lparr>maybe_load_checkpoint := None\<rparr>) =
        Inr (body @ [RunHooks last True] @
             map (\<lambda>h. Hook (fst h) last)
               ([(pbar_logger, 1), (log_to_wandb, 1), (log_performance_stats, 1),
                 (compute_validation_loss, 2), (wandb_xla_logger, 2), (checkpointer_on_step, 1),
                 (compute_and_visualize_log_probs, 2)] :: TrainerHooks) @
             [CheckpointerOnStep last True]) \<and>
      info_step last = 0 \<and> filter is_forced body = [])"
proof -
  have e: "steps_per_eval (example_config\<lparr>num_train_steps := 0\<rparr>) \<noteq> 0"
    and h: "hf_save_path (example_config\<lparr>num_train_steps := 0\<rparr>) \<noteq> None \<longrightarrow>
            hf_save_steps (example_config\<lparr>num_train_steps := 0\<rparr>) \<noteq> 0"
    by (simp_all add: example_config_def)
  have k: "train_lm_hooks (example_config\<lparr>num_train_steps := 0\<rparr>) =
      [(pbar_logger, 1), (log_to_wandb, 1), (log_performance_stats, 1),
       (compute_validation_loss, 2), (wandb_xla_logger, 2), (checkpointer_on_step, 1),
       (compute_and_visualize_log_probs, 2)]"
    by (simp add: train_lm_hooks_def add_hook_def example_config_def)
  have n: "num_train_steps (example_config\<lparr>num_train_steps := 0\<rparr>) = 0"
    by simp
  from train_lm_main_forced_finalization
    [OF e h, of "example_env\<lparr>maybe_load_checkpoint := None\<rparr>", unfolded k n]
  moreover have "hf_save_path (example_config\<lparr>num_train_steps := 0\<rparr>) = None"
    by (simp add: example_config_def)
  ultimately show ?thesis using e by blast
qed
lemma compute_loss_clock:
  "compute_loss (env\<lparr>step_time := clock\<rparr>) config = compute_loss env config"
  by (simp add: fun_eq_iff compute_loss_def)

lemma train_loss_clock:
  "train_loss (env\<lparr>step_time := clock\<rparr>) config = train_loss env config"
  by (simp add: fun_eq_iff train_loss_def compute_loss_clock)

lemma train_step_clock:
  "train_step (env\<lparr>step_time := clock\<rparr>) config = train_step env config"
  by (simp add: fun_eq_iff train_step_def train_loss_clock)

lemma info_step_erase: "info_step (erase_info info) = info_step info"
  by (simp add: erase_info_def)

lemma run_hooks_erase_forced:
  "run_hooks engine (erase_info info) True =
     map_sum id (map erase_event) (run_hooks engine info True)"
  by (induction engine) (auto split: sum.splits)

lemma run_hooks_erase_unforced:
  "run_hooks engine (erase_info info) False =
     map_sum id (map erase_event) (run_hooks engine info False)"
  by (induction engine) (auto simp: info_step_erase split: sum.splits)

lemma run_hooks_erase:
  "run_hooks engine (erase_info info) force =
     map_sum id (map erase_event) (run_hooks engine info force)"
  by (cases force) (simp_all add: run_hooks_erase_forced run_hooks_erase_unforced)

lemma run_hooks_erase_eq:
  assumes "erase_info info = erase_info info'"
  shows "map_sum id (map erase_event) (run_hooks engine info force) =
         map_sum id (map erase_event) (run_hooks engine info' force)"
  by (metis assms run_hooks_erase)

lemma erase_state_eq:
  "erase_state s = erase_state s' \<longleftrightarrow>
     the_model s = the_model s' \<and> the_opt_state s = the_opt_state s' \<and>
     the_training_key s = the_training_key s' \<and> batches_consumed s = batches_consumed s' \<and>
     the_step_loss s = the_step_loss s'"
  by (cases s, cases s') (simp add: erase_state_def)

lemma train_lm_loop_clock:
  assumes "erase_state s = erase_state s'" and "map erase_event events = map erase_event events'"
  shows "erase_run (train_lm_loop env config engine steps s events) =
         erase_run (train_lm_loop (env\<lparr>step_time := clock\<rparr>) config engine steps s' events')"
  using assms
proof (induction steps arbitrary: s s' events events')
  case Nil
  then show ?case by (simp add: erase_run_def)
next
  case (Cons step steps)
  from Cons.prems(1) have eq: "the_model s' = the_model s" "the_opt_state s' = the_opt_state s"
    "the_training_key s' = the_training_key s" "batches_consumed s' = batches_consumed s"
    by (simp_all add: erase_state_eq)
  obtain l m o' where ts: "train_step env config (the_model s) (the_opt_state s)
      (iter_data env (batches_consumed s)) (jrandom_split env (the_training_key s) 2 0) = (l, m, o')"
    by (cases "train_step env config (the_model s) (the_opt_state s)
      (iter_data env (batches_consumed s)) (jrandom_split env (the_training_key s) 2 0)") auto
  define k' where "k' = jrandom_split env (the_training_key s) 2 1"
  define info where "info = StepInfo step m o' l k' (step_time env step)"
  define info' where "info' = StepInfo step m o' l k' (clock step)"
  have ei: "erase_info info = erase_info info'"
    by (simp add: info_def info'_def erase_info_def)
  have h: "map_sum id (map erase_event)
              (run_hooks engine info False :: error + ('a pytree, 'b, 'c, 'd) event list) =
           map_sum id (map erase_event) (run_hooks engine info' False)"
    using ei by (rule run_hooks_erase_eq)
  show ?case
  proof (cases "run_hooks engine info False :: error + ('a pytree, 'b, 'c, 'd) event list")
    case (Inl e)
    with h have "run_hooks engine info' False = (Inl e :: error + ('a pytree, 'b, 'c, 'd) event list)"
      by (cases "run_hooks engine info' False :: error + ('a pytree, 'b, 'c, 'd) event list") simp_all
    with Inl show ?thesis
      by (simp add: ts eq train_step_clock Let_def k'_def info_def info'_def erase_run_def)
  next
    case (Inr hs)
    with h obtain hs' where r': "run_hooks engine info' False = (Inr hs' :: error + ('a pytree, 'b, 'c, 'd) event list)"
      and hh: "map erase_event hs = map erase_event hs'"
      by (cases "run_hooks engine info' False :: error + ('a pytree, 'b, 'c, 'd) event list") simp_all
    define s1 where "s1 = \<lparr>the_model = m, the_opt_state = o', the_training_key = k',
      batches_consumed = Suc (batches_consumed s), the_step_loss = l,
      the_step_time = step_time env step\<rparr>"
    define s1' where "s1' = \<lparr>the_model = m, the_opt_state = o', the_training_key = k',
      batches_consumed = Suc (batches_consumed s), the_step_loss = l,
      the_step_time = clock step\<rparr>"
    define b where "b = iter_data env (batches_consumed s)"
    define mk where "mk = jrandom_split env (the_training_key s) 2 0"
    have 1: "train_lm_loop env config engine (step # steps) s events =
        train_lm_loop env config engine steps s1 (events @ [TrainStep step b mk, RunHooks info False] @ hs)"
      using Inr by (simp add: ts Let_def k'_def info_def s1_def b_def mk_def)
    have 2: "train_lm_loop (env\<lparr>step_time := clock\<rparr>) config engine (step # steps) s' events' =
        train_lm_loop (env\<lparr>step_time := clock\<rparr>) config engine steps s1'
          (events' @ [TrainStep step b mk, RunHooks info' False] @ hs')"
      using r' by (simp add: ts eq train_step_clock Let_def k'_def info'_def s1'_def b_def mk_def)
    have 3: "erase_state s1 = erase_state s1'"
      by (simp add: erase_state_eq s1_def s1'_def)
    have 4: "map erase_event (events @ [TrainStep step b mk, RunHooks info False] @ hs) =
             map erase_event (events' @ [TrainStep step b mk, RunHooks info' False] @ hs')"
      using Cons.prems(2) hh ei by simp
    show ?thesis
      unfolding 1 2 by (rule Cons.IH[OF 3 4])
  qed
qed

lemma step_infos_erase: "step_infos (map erase_event events) = map erase_info (step_infos events)"
  by (induction events rule: step_infos.induct) simp_all

lemma step_losses_erase: "step_losses (map erase_event events) = step_losses events"
  by (simp add: step_losses_def step_infos_erase comp_def erase_info_def)

lemma train_and_finalize_clock:
  "map_sum id (map erase_event) (train_and_finalize env config engine initial_step s events) =
   map_sum id (map erase_event)
     (train_and_finalize (env\<lparr>step_time := clock\<rparr>) config engine initial_step s events)"
proof -
  define steps where "steps = py_range initial_step (num_train_steps config)"
  have e: "erase_run (train_lm_loop env config engine steps s events) =
         erase_run (train_lm_loop (env\<lparr>step_time := clock\<rparr>) config engine steps s events)"
    by (rule train_lm_loop_clock) simp_all
  show ?thesis
  proof (cases "train_lm_loop env config engine steps s events")
    case (Inl err)
    with e have "train_lm_loop (env\<lparr>step_time := clock\<rparr>) config engine steps s events = Inl err"
      by (cases "train_lm_loop (env\<lparr>step_time := clock\<rparr>) config engine steps s events")
         (simp_all add: erase_run_def)
    with Inl show ?thesis
      by (simp add: train_and_finalize_def steps_def[symmetric])
  next
    case (Inr r)
    obtain s1 ev1 where r: "r = (s1, ev1)" by (cases r)
    from e Inr r obtain s2 ev2 where
      r2: "train_lm_loop (env\<lparr>step_time := clock\<rparr>) config engine steps s events = Inr (s2, ev2)"
      and ss: "erase_state s1 = erase_state s2" and ee: "map erase_event ev1 = map erase_event ev2"
      by (cases "train_lm_loop (env\<lparr>step_time := clock\<rparr>) config engine steps s events")
         (auto simp add: erase_run_def)
    define last1 where "last1 = StepInfo (num_train_steps config) (the_model s1) (the_opt_state s1)
                             (the_step_loss s1) (the_training_key s1) (the_step_time s1)"
    define last2 where "last2 = StepInfo (num_train_steps config) (the_model s2) (the_opt_state s2)
                             (the_step_loss s2) (the_training_key s2) (the_step_time s2)"
    have el: "erase_info last1 = erase_info last2"
      using ss by (simp add: erase_state_eq last1_def last2_def erase_info_def)
    have hk: "map (\<lambda>h. erase_event (Hook (fst h) last1 :: ('a pytree, 'b, 'c, 'd) event)) engine =
              map (\<lambda>h. erase_event (Hook (fst h) last2)) engine"
      using el by simp
    have "train_and_finalize env config engine initial_step s events =
        Inr (ev1 @ [RunHooks last1 True] @ map (\<lambda>h. Hook (fst h) last1) engine @
             [CheckpointerOnStep last1 True])"
      using Inr r
      by (simp add: train_and_finalize_def steps_def[symmetric] Let_def run_hooks_forced last1_def
          case_prod_unfold)
    moreover have "train_and_finalize (env\<lparr>step_time := clock\<rparr>) config engine initial_step s events =
        Inr (ev2 @ [RunHooks last2 True] @ map (\<lambda>h. Hook (fst h) last2) engine @
             [CheckpointerOnStep last2 True])"
      using r2
      by (simp add: train_and_finalize_def steps_def[symmetric] Let_def run_hooks_forced last2_def
          case_prod_unfold)
    ultimately show ?thesis
      using ee el hk by (simp add: comp_def)
  qed
qed

lemma init_model_and_opt_state_clock:
  "init_model_and_opt_state (env\<lparr>step_time := clock\<rparr>) config = init_model_and_opt_state env config"
  by (simp add: fun_eq_iff init_model_and_opt_state_def)

lemma train_lm_main_from_hf:
  assumes "maybe_load_checkpoint env = None" and "initialize_from_hf config"
  shows "train_lm_main config env =
     train_and_finalize env config (train_lm_hooks config) 0
       \<lparr>the_model = load_pretrained env,
        the_opt_state = optimizer_init env (load_pretrained env),
        the_training_key = jrandom_split env (PRNGKey env (seed config)) 4 3,
        batches_consumed = 0, the_step_loss = 0, the_step_time = 0\<rparr> []"
  using assms by (simp add: train_lm_main_def Let_def)

lemma train_lm_main_from_scratch:
  assumes "maybe_load_checkpoint env = None" and "\<not> initialize_from_hf config"
  shows "train_lm_main config env =
     train_and_finalize env config (train_lm_hooks config) 0
       \<lparr>the_model = fst (init_model_and_opt_state env config
                            (jrandom_split env (PRNGKey env (seed config)) 4 2)),
        the_opt_state = snd (init_model_and_opt_state env config
                            (jrandom_split env (PRNGKey env (seed config)) 4 2)),
        the_training_key = jrandom_split env (PRNGKey env (seed config)) 4 3,
        batches_consumed = 0, the_step_loss = 0, the_step_time = 0\<rparr> []"
  using assms by (simp add: train_lm_main_def Let_def case_prod_unfold)

lemma train_lm_main_shape_clock:
  "\<exists>s seeks initial_step.
     train_lm_main config env =
       train_and_finalize env config (train_lm_hooks config) initial_step s seeks \<and>
     train_lm_main config (env\<lparr>step_time := clock\<rparr>) =
       train_and_finalize (env\<lparr>step_time := clock\<rparr>) config (train_lm_hooks config)
         initial_step s seeks"
proof (cases "maybe_load_checkpoint env")
  case None
  then have n: "maybe_load_checkpoint (env\<lparr>step_time := clock\<rparr>) = None"
    by simp
  show ?thesis
  proof (cases "initialize_from_hf config")
    case True
    show ?thesis
      unfolding train_lm_main_from_hf[OF None True] train_lm_main_from_hf[OF n True]
      by (intro exI conjI) (rule refl, simp)
  next
    case False
    show ?thesis
      unfolding train_lm_main_from_scratch[OF None False] train_lm_main_from_scratch[OF n False]
        init_model_and_opt_state_clock
      by (intro exI conjI) (rule refl, simp)
  qed
next
  case (Some c)
  obtain model opt_state rng_state step_index where c: "c = (model, opt_state, rng_state, step_index)"
    by (cases c)
  from Some c have 1: "maybe_load_checkpoint env = Some (model, opt_state, rng_state, step_index)"
    by simp
  then have 2: "maybe_load_checkpoint (env\<lparr>step_time := clock\<rparr>) =
                Some (model, opt_state, rng_state, step_index)"
    by simp
  show ?thesis
    unfolding train_lm_main_resume[OF 1] train_lm_main_resume[OF 2]
    by (intro exI conjI) (rule refl, simp)
qed

lemma train_lm_main_clock:
  "map_sum id (map erase_event) (train_lm_main config env) =
   map_sum id (map erase_event) (train_lm_main config (env\<lparr>step_time := clock\<rparr>))"
proof -
  from train_lm_main_shape_clock[of config env clock] obtain s seeks initial_step where
    "train_lm_main config env =
       train_and_finalize env config (train_lm_hooks config) initial_step s seeks"
    "train_lm_main config (env\<lparr>step_time := clock\<rparr>) =
       train_and_finalize (env\<lparr>step_time := clock\<rparr>) config (train_lm_hooks config)
         initial_step s seeks"
    by blast
  then show ?thesis
    by (simp only: train_and_finalize_clock[of env config _ initial_step s seeks clock])
qed

lemma step_losses_clock:
  "map_sum id step_losses (train_lm_main config env) =
   map_sum id step_losses (train_lm_main config (env\<lparr>step_time := clock\<rparr>))"
proof -
  have "map_sum id step_losses r = map_sum id step_losses (map_sum id (map erase_event) r)"
    for r :: "error + ('a pytree, 'b, 'c, 'd) event list"
    by (cases r) (simp_all add: step_losses_erase)
  then show ?thesis
    by (metis train_lm_main_clock)
qed

text \<open>
  Two runs of the training loop that differ at most in the wall-clock durations they measure
  end alike (both in the same error or both normally) and hand their hooks the same sequence
  of \<open>StepInfo.loss\<close> values: the measured duration reaches the hooks and nothing else.
\<close>

lemma step_losses_independent_of_step_time:
  "map_sum id step_losses (train_lm_main config (env\<lparr>step_time := clock\<rparr>)) =
   map_sum id step_losses (train_lm_main config (env\<lparr>step_time := clock'\<rparr>))"
  using step_losses_clock[of config "env\<lparr>step_time := clock\<rparr>" clock'] by simp

section \<open>Mixed precision in the training loop\<close>

text \<open>
  What holds of the mixed-precision policy. The forward pass only ever sees a model in
  compute dtype, and the cross-entropy only ever sees predictions in output dtype:
  \<open>compute_loss\<close> does not depend on what the model computes on trees in another dtype, nor
  on what the loss computes on predictions in another dtype. \<open>init_model_and_opt_state\<close>
  returns a model in parameter dtype, whatever dtype \<open>build\<close> produces. \<open>train_step\<close>
  applies the updates to the model as stored, so that, \<open>eqx.apply_updates\<close> keeping the
  dtypes of the tree it updates, a run initialised from scratch hands only models in
  parameter dtype to its hooks and its checkpointer.
\<close>

lemma has_dtype_cast_to_compute: "has_dtype (compute_dtype p) (cast_to_compute p tree)"
  by (simp add: has_dtype_def cast_to_compute_def astype_def list_all_iff)

lemma has_dtype_cast_to_param: "has_dtype (param_dtype p) (cast_to_param p tree)"
  by (simp add: has_dtype_def cast_to_param_def astype_def list_all_iff)

lemma dtype_cast_to_output: "fst (cast_to_output p x) = output_dtype p"
  by (simp add: cast_to_output_def astype_def)

lemma compute_loss_forward_dtype:
  assumes "\<And>model example key inference. has_dtype (compute_dtype (mp config)) model \<Longrightarrow>
             forward model example key inference = model_call env model example key inference"
  shows "compute_loss (env\<lparr>model_call := forward\<rparr>) config model example key inference =
         compute_loss env config model example key inference"
  by (simp add: compute_loss_def Let_def assms has_dtype_cast_to_compute)

lemma compute_loss_cross_entropy_dtype:
  assumes "\<And>pred_y target_y example. fst pred_y = output_dtype (mp config) \<Longrightarrow>
             loss_fn pred_y target_y example = hax_cross_entropy_loss env pred_y target_y example"
  shows "compute_loss (env\<lparr>hax_cross_entropy_loss := loss_fn\<rparr>) config model example key inference =
         compute_loss env config model example key inference"
  by (simp add: compute_loss_def Let_def assms dtype_cast_to_output)

lemma init_model_and_opt_state_dtype:
  "has_dtype (param_dtype (mp config)) (fst (init_model_and_opt_state env config model_key))"
  by (simp add: init_model_and_opt_state_def Let_def has_dtype_cast_to_param)

lemma train_step_dtype:
  assumes "\<And>model updates. map fst (apply_updates env model updates) = map fst model"
  shows "map fst (fst (snd (train_step env config model opt_state examples key))) = map fst model"
  by (simp add: train_step_def Let_def case_prod_unfold assms)

lemma step_infos_append: "step_infos (xs @ ys) = step_infos xs @ step_infos ys"
  by (induction xs rule: step_infos.induct) simp_all

lemma model_dtypes_append: "model_dtypes (xs @ ys) = model_dtypes xs @ model_dtypes ys"
  by (simp add: model_dtypes_def step_infos_append)

lemma step_infos_run_hooks:
  "run_hooks engine info force = Inr hs \<Longrightarrow> step_infos hs = []"
  by (induction engine arbitrary: hs) (auto split: if_splits sum.splits)

lemma train_lm_loop_dtypes:
  assumes pres: "\<And>model updates. map fst (apply_updates env model updates) = map fst model"
    and run: "train_lm_loop env config engine steps s events = Inr (s', events')"
  shows "map fst (the_model s') = map fst (the_model s) \<and>
         model_dtypes events' =
           model_dtypes events @ replicate (length steps) (map fst (the_model s))"
  using run
proof (induction steps arbitrary: s events)
  case Nil
  then show ?case by simp
next
  case (Cons step steps)
  define example where "example = iter_data env (batches_consumed s)"
  define my_key where "my_key = jrandom_split env (the_training_key s) 2 0"
  define training_key where "training_key = jrandom_split env (the_training_key s) 2 1"
  obtain l m o' where ts: "train_step env config (the_model s) (the_opt_state s) example my_key = (l, m, o')"
    by (cases "train_step env config (the_model s) (the_opt_state s) example my_key") auto
  have dm: "map fst m = map fst (the_model s)"
    using train_step_dtype[OF pres, of config "the_model s" "the_opt_state s" example my_key]
    by (simp add: ts)
  define info where "info = StepInfo step m o' l training_key (step_time env step)"
  define s1 where "s1 = \<lparr>the_model = m, the_opt_state = o', the_training_key = training_key,
      batches_consumed = Suc (batches_consumed s), the_step_loss = l,
      the_step_time = step_time env step\<rparr>"
  from Cons.prems obtain hs where
    h: "run_hooks engine info False = (Inr hs :: error + ('a pytree, 'b, 'c, 'd) event list)"
    and r: "train_lm_loop env config engine steps s1
              (events @ [TrainStep step example my_key, RunHooks info False] @ hs) = Inr (s', events')"
    by (simp add: ts[unfolded example_def my_key_def] Let_def example_def my_key_def
        training_key_def info_def s1_def split: sum.splits)
  from Cons.IH[OF r] have
    1: "map fst (the_model s') = map fst (the_model s1)"
    and 2: "model_dtypes events' =
       model_dtypes (events @ [TrainStep step example my_key, RunHooks info False] @ hs) @
       replicate (length steps) (map fst (the_model s1))"
    by simp_all
  have 3: "the_model s1 = m"
    by (simp add: s1_def)
  have 4: "model_dtypes (events @ [TrainStep step example my_key, RunHooks info False] @ hs) =
           model_dtypes events @ [map fst m]"
    using step_infos_run_hooks[OF h]
    by (simp add: model_dtypes_def step_infos_append info_def)
  have 5: "model_dtypes events' =
           (model_dtypes events @ [map fst m]) @ replicate (length steps) (map fst m)"
    using 2 unfolding 4 3 .
  show ?case
    using 1 by (simp add: 3 5 dm replicate_app_Cons_same)
qed

lemma train_and_finalize_dtypes:
  assumes pres: "\<And>model updates. map fst (apply_updates env model updates) = map fst model"
    and run: "train_and_finalize env config engine initial_step s events = Inr trace"
  shows "model_dtypes trace =
           model_dtypes events @
           replicate (Suc (length (py_range initial_step (num_train_steps config))))
             (map fst (the_model s))"
proof -
  define steps where "steps = py_range initial_step (num_train_steps config)"
  from run obtain s' events' where
    l: "train_lm_loop env config engine steps s events = Inr (s', events')"
    by (auto simp: train_and_finalize_def steps_def split: sum.splits)
  define last where "last = StepInfo (num_train_steps config) (the_model s') (the_opt_state s')
                             (the_step_loss s') (the_training_key s') (the_step_time s')"
  have t: "trace = events' @ [RunHooks last True] @ map (\<lambda>(fn, every). Hook fn last) engine @
                   [CheckpointerOnStep last True]"
    using run by (simp add: train_and_finalize_def steps_def[symmetric] l Let_def
        run_hooks_forced last_def)
  have h: "step_infos (map (\<lambda>(fn, every). Hook fn last :: ('a pytree, 'b, 'c, 'd) event) engine) = []"
    by (induction engine) auto
  have m: "info_model last = the_model s'"
    by (simp add: last_def)
  from train_lm_loop_dtypes[OF pres l] show ?thesis
    unfolding t steps_def[symmetric]
    by (simp add: model_dtypes_def step_infos_append h m replicate_append_same)
qed

lemma train_lm_main_from_scratch_dtypes:
  assumes pres: "\<And>model updates. map fst (apply_updates env model updates) = map fst model"
    and none: "maybe_load_checkpoint env = None" and scratch: "\<not> initialize_from_hf config"
    and run: "train_lm_main config env = Inr trace"
  shows "list_all (list_all (\<lambda>d. d = param_dtype (mp config))) (model_dtypes trace)"
proof -
  define model where "model = fst (init_model_and_opt_state env config
                            (jrandom_split env (PRNGKey env (seed config)) 4 2))"
  have p: "list_all (\<lambda>d. d = param_dtype (mp config)) (map fst model)"
    using init_model_and_opt_state_dtype[of config env]
    by (simp add: model_def has_dtype_def list_all_iff)
  from run have "train_and_finalize env config (train_lm_hooks config) 0
       \<lparr>the_model = model,
        the_opt_state = snd (init_model_and_opt_state env config
                            (jrandom_split env (PRNGKey env (seed config)) 4 2)),
        the_training_key = jrandom_split env (PRNGKey env (seed config)) 4 3,
        batches_consumed = 0, the_step_loss = 0, the_step_time = 0\<rparr> [] = Inr trace"
    by (simp add: train_lm_main_from_scratch[OF none scratch] model_def)
  from train_and_finalize_dtypes[OF pres this] show ?thesis
    using p by (simp add: model_dtypes_def list_all_iff)
qed

text \<open>
  Claim C9. The parameters that are updated and persisted are not always in parameter
  dtype: when there is no training checkpoint and \<open>initialize_from_hf\<close> is set, \<open>main\<close>
  takes the model from \<open>converter.load_pretrained\<close>, which is not given the policy, and
  does not cast it with \<open>cast_to_param\<close> as \<open>init_model_and_opt_state\<close> does. In the
  example the pretrained weights are float16 and the parameter dtype is float32; the model
  in every StepInfo of the run, the one of the final forced checkpoint included, is float16.
\<close>

theorem train_lm_main_from_hf_dtype:
  "param_dtype (mp hf_example_config) = float32 \<and>
   map_sum id model_dtypes (train_lm_main hf_example_config hf_example_env) =
     Inr [[float16], [float16], [float16]]"
  by (simp add: hf_example_config_def hf_example_env_def example_config_def example_env_def
      example_policy_def train_lm_main_def train_and_finalize_def Let_def py_range_def
      upto.simps train_lm_hooks_def add_hook_def train_step_def train_loss_def compute_loss_def
      cast_to_compute_def cast_to_output_def astype_def model_dtypes_def)

section \<open>Properties of the two-phase program\<close>

subsection \<open>The float product\<close>

lemma pow2_powr: "pow2 e = 2 powr (real_of_int e)"
proof (cases "0 \<le> e")
  case True
  then have r: "real_of_int e = real (nat e)" by simp
  have "(2::real) powr real (nat e) = 2 ^ nat e"
    by (rule powr_realpow) simp
  then show ?thesis using True unfolding r by (simp add: pow2_def)
next
  case False
  then have r: "real_of_int e = - real (nat (- e))" by simp
  have "(2::real) powr real (nat (- e)) = 2 ^ nat (- e)"
    by (rule powr_realpow) simp
  then have "(2::real) powr (- real (nat (- e))) = 1 / 2 ^ nat (- e)"
    by (simp add: powr_minus divide_inverse)
  then show ?thesis using False unfolding r by (simp add: pow2_def)
qed

lemma floor_log2:
  assumes "pow2 k \<le> x" "x < pow2 (k + 1)"
  shows "\<lfloor>log 2 x\<rfloor> = k"
proof -
  have "0 < pow2 k" by (simp add: pow2_powr)
  with assms(1) have "0 < x" by simp
  then show ?thesis
    using floor_log_eq_powr_iff[of x 2 k] assms by (simp add: pow2_powr)
qed

lemma round_half_even_int: "round_half_even (of_int m) = m"
  by (simp add: round_half_even_def)

lemma round_to_double_exact:
  assumes "pow2 k \<le> \<bar>x\<bar>" "\<bar>x\<bar> < pow2 (k + 1)" "- 1022 \<le> k" "k < 1024"
    and "x = of_int m * pow2 (k - 52)"
  shows "round_to_double x = Some x"
proof -
  have e: "\<lfloor>log 2 \<bar>x\<bar>\<rfloor> = k" using assms(1,2) by (rule floor_log2)
  have "0 < pow2 k" by (simp add: pow2_powr)
  with assms(1) have x0: "x \<noteq> 0" by auto
  have u0: "pow2 (k - 52) \<noteq> 0" by (simp add: pow2_powr)
  have "x / pow2 (k - 52) = of_int m"
    using assms(5) u0 by simp
  then have "round_half_even (x / pow2 (k - 52)) = m"
    by (simp only: round_half_even_int)
  then have rv: "of_int (round_half_even (x / pow2 (k - 52))) * pow2 (k - 52) = x"
    using assms(5) by simp
  have "pow2 (k + 1) \<le> pow2 1024"
    unfolding pow2_powr using assms(4) by (intro powr_mono) simp_all
  with assms(2) have lt: "\<not> pow2 1024 \<le> \<bar>x\<bar>"
    by simp
  have mx: "max k (- 1022) = k"
    using assms(3) by simp
  show ?thesis
    unfolding round_to_double_def e mx Let_def rv using x0 lt by simp
qed

lemma round_to_double_10: "round_to_double 10 = Some 10"
  by (rule round_to_double_exact[of 3 _ "10 * 2 ^ 49"]) (simp_all add: pow2_def)

lemma round_to_double_5: "round_to_double 5 = Some 5"
  by (rule round_to_double_exact[of 2 _ "5 * 2 ^ 50"]) (simp_all add: pow2_def)

lemma round_to_double_half: "round_to_double (1 / 2) = Some (1 / 2)"
  by (rule round_to_double_exact[of "- 1" _ "2 ^ 52"]) (simp_all add: pow2_def)

lemma int_of_float_product_10_half: "int_of_float_product 10 (1 / 2) = Inr 5"
  by (simp add: int_of_float_product_def round_to_double_10 round_to_double_5
      round_to_double_half py_int_def)

text \<open>
  A product that the rounding decides: 50 steps and the fraction 0.58. The float of 0.58 is
  \<open>5224175567749775 / 2 ^ 53\<close>, below 0.58; the float product is
  \<open>8162774324609023 / 2 ^ 48\<close>, printed \<open>28.999999999999996\<close>, and phase 1 has 28 steps,
  where the product of the real numbers is 29.
\<close>

lemma round_to_double_58: "round_to_double (58 / 100) = Some (5224175567749775 / 2 ^ 53)"
proof -
  have e: "\<lfloor>log 2 \<bar>58 / 100 :: real\<bar>\<rfloor> = - 1"
    by (rule floor_log2) (simp_all add: pow2_def)
  have ulp: "pow2 (max (- 1) (- 1022) - 52) = 1 / 2 ^ 53"
    by (simp add: pow2_def)
  have q: "round_half_even ((58 / 100) / (1 / 2 ^ 53)) = 5224175567749775"
    by (simp add: round_half_even_def Let_def)
  show ?thesis
    unfolding round_to_double_def e ulp Let_def q by (simp add: pow2_def)
qed

lemma round_to_double_50: "round_to_double 50 = Some 50"
  by (rule round_to_double_exact[of 5 _ "50 * 2 ^ 47"]) (simp_all add: pow2_def)

lemma round_to_double_50_58:
  "round_to_double (50 * (5224175567749775 / 2 ^ 53)) = Some (8162774324609023 / 2 ^ 48)"
proof -
  define x :: real where "x = 50 * (5224175567749775 / 2 ^ 53)"
  have e: "\<lfloor>log 2 \<bar>x\<bar>\<rfloor> = 4"
    by (rule floor_log2) (simp_all add: x_def pow2_def)
  have ulp: "pow2 (max 4 (- 1022) - 52) = 1 / 2 ^ 48"
    by (simp add: pow2_def)
  have q: "round_half_even (x / (1 / 2 ^ 48)) = 8162774324609023"
    by (simp add: round_half_even_def x_def Let_def)
  have "round_to_double x = Some (8162774324609023 / 2 ^ 48)"
    unfolding round_to_double_def e ulp Let_def q by (simp add: x_def pow2_def)
  then show ?thesis
    unfolding x_def .
qed

lemma int_of_float_product_50: "int_of_float_product 50 (58 / 100) = Inr 28"
proof -
  have "int_of_float_product 50 (58 / 100) = Inr (py_int (8162774324609023 / 2 ^ 48))"
    unfolding int_of_float_product_def
    by (simp only: of_int_numeral round_to_double_50 round_to_double_58 option.case
        round_to_double_50_58)
  also have "py_int (8162774324609023 / 2 ^ 48) = 28"
    by (simp add: py_int_def)
  finally show ?thesis .
qed

subsection \<open>The two phases\<close>

lemma markers_append: "markers (xs @ ys) = markers xs @ markers ys"
  by (induction xs rule: markers.induct) simp_all

lemma markers_hooks: "markers (map (\<lambda>(fn, every). Hook fn info) hs) = []"
  by (induction hs) auto

lemma training_phase_step:
  fixes env :: "('m, 'o, 'k, 'b, 'e, 'd) instruction_tune_env"
  assumes ok: "cadences_ok engine" and nb: "next_batch s = Inr (batch, s1)"
  shows "\<exists>s2 body l t.
     training_phase env config engine phase next_batch (step # steps) s events =
       training_phase env config engine phase next_batch steps s2 (events @ body) \<and>
     markers body = [Trained step, Phase phase step] \<and> trained body = [(step, batch)] \<and>
     cur_iter_data s2 = cur_iter_data s1 \<and> cur_prng_draws s2 = cur_prng_draws s1 \<and>
     cur_iter_itune s2 = cur_iter_itune s1 \<and> cur_step s2 = Some (step, l, t)"
proof -
  define my_key where "my_key = jrandom_split env (cur_training_key s1) 2 0"
  define training_key where "training_key = jrandom_split env (cur_training_key s1) 2 1"
  obtain l m o' where ts: "pjit_train_step env (cur_model s1) (cur_opt_state s1) batch
      (global_key_array env my_key (train_batch_size config)) = (l, m, o')"
    by (cases "pjit_train_step env (cur_model s1) (cur_opt_state s1) batch
      (global_key_array env my_key (train_batch_size config))") auto
  define info where "info = StepInfo step m o' l training_key (step_time env step)"
  define hs where "hs = map (\<lambda>(fn, every). Hook fn info :: ('m, 'o, 'k, 'b) event)
            (filter (\<lambda>(fn, every). info_step info mod every = 0) engine)"
  define s2 where "s2 = s1\<lparr>cur_model := m, cur_opt_state := o', cur_training_key := training_key,
                       cur_step := Some (step, l, step_time env step)\<rparr>"
  define body where "body = [TrainStep step batch my_key, WandbLogPhase phase step,
                               RunHooks info False] @ hs"
  have "training_phase env config engine phase next_batch (step # steps) s events =
       training_phase env config engine phase next_batch steps s2 (events @ body)"
    by (simp add: nb ts[unfolded my_key_def] Let_def run_hooks_unforced[OF ok] my_key_def
        training_key_def info_def hs_def s2_def body_def)
  moreover have "markers body = [Trained step, Phase phase step]"
    by (simp add: body_def hs_def markers_hooks)
  moreover have "trained body = [(step, batch)]"
    by (simp add: body_def hs_def trained_hooks)
  moreover have "cur_iter_data s2 = cur_iter_data s1" "cur_prng_draws s2 = cur_prng_draws s1"
    "cur_iter_itune s2 = cur_iter_itune s1" "cur_step s2 = Some (step, l, step_time env step)"
    by (simp_all add: s2_def)
  ultimately show ?thesis by blast
qed

lemma training_phase_iter_data:
  fixes env :: "('m, 'o, 'k, 'b, 'e, 'd) instruction_tune_env"
  assumes ok: "cadences_ok engine"
  shows "\<exists>s' body.
     training_phase env config engine phase (next_iter_data env) steps s events =
       Inr (s', events @ body) \<and>
     markers body = step_markers phase steps \<and>
     trained body = zip steps (map (iter_data env) [cur_iter_data s..<cur_iter_data s + length steps]) \<and>
     cur_iter_data s' = cur_iter_data s + length steps \<and>
     cur_prng_draws s' = cur_prng_draws s \<and> cur_iter_itune s' = cur_iter_itune s \<and>
     (steps = [] \<longrightarrow> cur_step s' = cur_step s) \<and>
     (steps \<noteq> [] \<longrightarrow> (\<exists>l t. cur_step s' = Some (last steps, l, t)))"
proof (induction steps arbitrary: s events)
  case Nil
  show ?case by (simp add: step_markers_def)
next
  case (Cons step steps)
  define s1 where "s1 = s\<lparr>cur_iter_data := Suc (cur_iter_data s)\<rparr>"
  have nb: "next_iter_data env s = Inr (iter_data env (cur_iter_data s), s1)"
    by (simp add: next_iter_data_def s1_def)
  from training_phase_step[where next_batch = "next_iter_data env" and s = s and env = env
      and config = config and phase = phase and step = step and steps = steps
      and events = events, OF ok nb]
  obtain s2 body1 l t where
    u: "training_phase env config engine phase (next_iter_data env) (step # steps) s events =
       training_phase env config engine phase (next_iter_data env) steps s2 (events @ body1)"
    and m1: "markers body1 = [Trained step, Phase phase step]"
    and t1: "trained body1 = [(step, iter_data env (cur_iter_data s))]"
    and st: "cur_iter_data s2 = cur_iter_data s1" "cur_prng_draws s2 = cur_prng_draws s1"
      "cur_iter_itune s2 = cur_iter_itune s1" "cur_step s2 = Some (step, l, t)"
    by blast
  from Cons.IH[of s2 "events @ body1"] obtain s' body where
    r: "training_phase env config engine phase (next_iter_data env) steps s2 (events @ body1) =
       Inr (s', (events @ body1) @ body)"
    and m: "markers body = step_markers phase steps"
    and tr: "trained body = zip steps (map (iter_data env) [cur_iter_data s2..<cur_iter_data s2 + length steps])"
    and f: "cur_iter_data s' = cur_iter_data s2 + length steps"
      "cur_prng_draws s' = cur_prng_draws s2" "cur_iter_itune s' = cur_iter_itune s2"
    and e: "steps = [] \<longrightarrow> cur_step s' = cur_step s2"
    and n: "steps \<noteq> [] \<longrightarrow> (\<exists>l t. cur_step s' = Some (last steps, l, t))"
    by blast
  have p: "cur_iter_data s2 = Suc (cur_iter_data s)"
    using st(1) by (simp add: s1_def)
  have "training_phase env config engine phase (next_iter_data env) (step # steps) s events =
       Inr (s', events @ (body1 @ body))"
    using u r by simp
  moreover have "markers (body1 @ body) = step_markers phase (step # steps)"
    using m m1 by (simp add: markers_append step_markers_def)
  moreover have "trained (body1 @ body) = zip (step # steps)
      (map (iter_data env) [cur_iter_data s..<cur_iter_data s + length (step # steps)])"
    unfolding length_Cons upt_add_Suc using tr t1 p by (simp add: trained_append)
  moreover have "cur_iter_data s' = cur_iter_data s + length (step # steps)"
    using f(1) p by simp
  moreover have "cur_prng_draws s' = cur_prng_draws s" "cur_iter_itune s' = cur_iter_itune s"
    using f st by (simp_all add: s1_def)
  moreover have "\<exists>l t. cur_step s' = Some (last (step # steps), l, t)"
    using e n st(4) by (cases "steps = []") auto
  ultimately show ?case by blast
qed

lemma instruction_batches_before_Suc:
  "instruction_batches_before config env (Suc j) =
     instruction_batches_before config env j + (if draws_instruction config env j then 1 else 0)"
  by (simp add: instruction_batches_before_def)

lemma instruction_batches_before_le: "instruction_batches_before config env j \<le> j"
  unfolding instruction_batches_before_def
  by (metis diff_zero length_filter_le length_upt)

lemma batch_sampler_step:
  fixes env :: "('m, 'o, 'k, 'b, 'e, 'd) instruction_tune_env"
  assumes d: "cur_prng_draws s = j"
    and it: "cur_iter_itune s = drop (train_batch_size config * instruction_batches_before config env j) (itune_dataset env)"
    and dat: "cur_iter_data s = start + (j - instruction_batches_before config env j)"
    and enough: "train_batch_size config * Suc (instruction_batches_before config env j) \<le> length (itune_dataset env)"
  shows "\<exists>s1. batch_sampler env config (itune_key_of config env) s = Inr (phase2_batch config env start j, s1) \<and>
     cur_prng_draws s1 = Suc j \<and>
     cur_iter_itune s1 = drop (train_batch_size config * instruction_batches_before config env (Suc j)) (itune_dataset env) \<and>
     cur_iter_data s1 = start + (Suc j - instruction_batches_before config env (Suc j))"
proof (cases "draws_instruction config env j")
  case True
  then have u: "prng_uniform env (itune_key_of config env) j < instruction_weight config"
    by (simp add: draws_instruction_def)
  have len: "\<not> length (cur_iter_itune s) < train_batch_size config"
    using enough by (simp add: it)
  have c: "instruction_batches_before config env (Suc j) = Suc (instruction_batches_before config env j)"
    using True by (simp add: instruction_batches_before_Suc)
  define s1 where "s1 = s\<lparr>cur_prng_draws := Suc j,
      cur_iter_itune := drop (train_batch_size config) (cur_iter_itune s)\<rparr>"
  have "batch_sampler env config (itune_key_of config env) s = Inr (phase2_batch config env start j, s1)"
    using u len True by (simp add: batch_sampler_def Let_def d it phase2_batch_def s1_def)
  moreover have "cur_prng_draws s1 = Suc j"
    by (simp add: s1_def)
  moreover have "cur_iter_itune s1 = drop (train_batch_size config * instruction_batches_before config env (Suc j)) (itune_dataset env)"
    by (simp add: s1_def it c add.commute)
  moreover have "cur_iter_data s1 = start + (Suc j - instruction_batches_before config env (Suc j))"
    by (simp add: s1_def dat c)
  ultimately show ?thesis by blast
next
  case False
  then have u: "\<not> prng_uniform env (itune_key_of config env) j < instruction_weight config"
    by (simp add: draws_instruction_def)
  have c: "instruction_batches_before config env (Suc j) = instruction_batches_before config env j"
    using False by (simp add: instruction_batches_before_Suc)
  define s1 where "s1 = s\<lparr>cur_prng_draws := Suc j, cur_iter_data := Suc (cur_iter_data s)\<rparr>"
  have "batch_sampler env config (itune_key_of config env) s = Inr (phase2_batch config env start j, s1)"
    using u False by (simp add: batch_sampler_def Let_def d dat phase2_batch_def s1_def next_iter_data_def)
  moreover have "cur_prng_draws s1 = Suc j"
    by (simp add: s1_def)
  moreover have "cur_iter_itune s1 = drop (train_batch_size config * instruction_batches_before config env (Suc j)) (itune_dataset env)"
    by (simp add: s1_def it c)
  moreover have "cur_iter_data s1 = start + (Suc j - instruction_batches_before config env (Suc j))"
    using instruction_batches_before_le[of config env j] by (simp add: s1_def dat c)
  ultimately show ?thesis by blast
qed

lemma training_phase_batch_sampler:
  fixes env :: "('m, 'o, 'k, 'b, 'e, 'd) instruction_tune_env"
  assumes ok: "cadences_ok engine"
    and d: "cur_prng_draws s = j"
    and it: "cur_iter_itune s = drop (train_batch_size config * instruction_batches_before config env j) (itune_dataset env)"
    and dat: "cur_iter_data s = start + (j - instruction_batches_before config env j)"
    and enough: "train_batch_size config * (instruction_batches_before config env j + length steps)
                   \<le> length (itune_dataset env)"
  shows "\<exists>s' body.
     training_phase env config engine 2 (batch_sampler env config (itune_key_of config env)) steps s events =
       Inr (s', events @ body) \<and>
     markers body = step_markers 2 steps \<and>
     trained body = zip steps (map (phase2_batch config env start) [j..<j + length steps]) \<and>
     (steps = [] \<longrightarrow> cur_step s' = cur_step s) \<and>
     (steps \<noteq> [] \<longrightarrow> (\<exists>l t. cur_step s' = Some (last steps, l, t)))"
  using d it dat enough
proof (induction steps arbitrary: s events j)
  case Nil
  show ?case by (simp add: step_markers_def)
next
  case (Cons step steps)
  let ?B = "train_batch_size config"
  let ?c = "instruction_batches_before config env"
  have e1: "?B * Suc (?c j) \<le> length (itune_dataset env)"
  proof -
    have "?B * Suc (?c j) \<le> ?B * (?c j + length (step # steps))"
      by (intro mult_le_mono2) simp
    with Cons.prems(4) show ?thesis by linarith
  qed
  from batch_sampler_step[OF Cons.prems(1,2,3) e1] obtain s1 where
    nb: "batch_sampler env config (itune_key_of config env) s = Inr (phase2_batch config env start j, s1)"
    and d1: "cur_prng_draws s1 = Suc j"
    and it1: "cur_iter_itune s1 = drop (?B * ?c (Suc j)) (itune_dataset env)"
    and dat1: "cur_iter_data s1 = start + (Suc j - ?c (Suc j))"
    by blast
  from training_phase_step[where next_batch = "batch_sampler env config (itune_key_of config env)"
      and s = s and env = env and config = config and phase = 2 and step = step and steps = steps
      and events = events, OF ok nb]
  obtain s2 body1 l t where
    u: "training_phase env config engine 2 (batch_sampler env config (itune_key_of config env)) (step # steps) s events =
       training_phase env config engine 2 (batch_sampler env config (itune_key_of config env)) steps s2 (events @ body1)"
    and m1: "markers body1 = [Trained step, Phase 2 step]"
    and t1: "trained body1 = [(step, phase2_batch config env start j)]"
    and st: "cur_iter_data s2 = cur_iter_data s1" "cur_prng_draws s2 = cur_prng_draws s1"
      "cur_iter_itune s2 = cur_iter_itune s1" "cur_step s2 = Some (step, l, t)"
    by blast
  have e2: "?B * (?c (Suc j) + length steps) \<le> length (itune_dataset env)"
  proof -
    have "?c (Suc j) + length steps \<le> ?c j + length (step # steps)"
      by (simp add: instruction_batches_before_Suc)
    then have "?B * (?c (Suc j) + length steps) \<le> ?B * (?c j + length (step # steps))"
      by (rule mult_le_mono2)
    with Cons.prems(4) show ?thesis by linarith
  qed
  from Cons.IH[of s2 "Suc j" "events @ body1"] st d1 it1 dat1 e2 obtain s' body where
    r: "training_phase env config engine 2 (batch_sampler env config (itune_key_of config env)) steps s2 (events @ body1) =
       Inr (s', (events @ body1) @ body)"
    and m: "markers body = step_markers 2 steps"
    and tr: "trained body = zip steps (map (phase2_batch config env start) [Suc j..<Suc j + length steps])"
    and e: "steps = [] \<longrightarrow> cur_step s' = cur_step s2"
    and n: "steps \<noteq> [] \<longrightarrow> (\<exists>l t. cur_step s' = Some (last steps, l, t))"
    by auto
  have "training_phase env config engine 2 (batch_sampler env config (itune_key_of config env)) (step # steps) s events =
       Inr (s', events @ (body1 @ body))"
    using u r by simp
  moreover have "markers (body1 @ body) = step_markers 2 (step # steps)"
    using m m1 by (simp add: markers_append step_markers_def)
  moreover have "trained (body1 @ body) = zip (step # steps)
      (map (phase2_batch config env start) [j..<j + length (step # steps)])"
    unfolding length_Cons upt_add_Suc using tr t1 by (simp add: trained_append)
  moreover have "\<exists>l t. cur_step s' = Some (last (step # steps), l, t)"
    using e n st(4) by (cases "steps = []") auto
  ultimately show ?case by blast
qed

lemma cadences_ok_instruction_tune_hooks:
  "cadences_ok (instruction_tune_hooks config) \<longleftrightarrow> steps_per_eval config \<noteq> 0"
  by (auto simp: cadences_ok_def instruction_tune_hooks_def add_hook_def Let_def)

lemma markers_save_checkpoint:
  "save_checkpoint s tag = Inr saved \<Longrightarrow> cur_step s = Some (step, l, t) \<Longrightarrow>
   markers saved = [Checkpoint tag step] \<and> trained saved = []"
  by (auto simp: save_checkpoint_def)

lemma save_checkpoint_bound:
  "cur_step s = Some (step, l, t) \<Longrightarrow>
   \<exists>saved. save_checkpoint s tag = (Inr saved :: error + ('m, 'o, 'k, 'b) event list) \<and>
     markers saved = [Checkpoint tag step] \<and> trained saved = []"
  by (simp add: save_checkpoint_def)

lemma instruction_tune_main_run:
  fixes env :: "('m, 'o, 'k, 'b, 'e, 'd) instruction_tune_env"
  assumes ok: "steps_per_eval config \<noteq> 0"
    and u: "int_of_float_product (num_train_steps config) (ul2r_phase_fraction config) =
              Inr ul2r_steps"
    and steps1: "steps1 = py_range 0 ul2r_steps"
    and steps2: "steps2 = py_range ul2r_steps (num_train_steps config)"
    and some: "steps1 @ steps2 \<noteq> []"
    and enough: "train_batch_size config * length steps2 \<le> length (itune_dataset env)"
  shows "\<exists>trace. instruction_tune_main config env = Inr trace \<and>
     markers trace =
       step_markers 1 steps1 @
       (if 0 < ul2r_steps then [Checkpoint ''ul2r_finished'' (last steps1)] else []) @
       step_markers 2 steps2 @ [Checkpoint ''instruction_tuned'' (last (steps1 @ steps2))] \<and>
     trained trace =
       zip steps1 (map (iter_data env) [0..<length steps1]) @
       zip steps2 (map (phase2_batch config env (length steps1)) [0..<length steps2])"
proof -
  have okh: "cadences_ok (instruction_tune_hooks config)"
    using ok by (simp add: cadences_ok_instruction_tune_hooks)
  define key where "key = PRNGKey env (seed config)"
  define model where "model = resize_vocab env (load_hf_gpt2_checkpoint env)"
  define s0 :: "('m, 'o, 'k, 'e) tune_state" where
    "s0 = \<lparr>cur_model = model, cur_opt_state = optimizer_init env model,
          cur_training_key = jrandom_split env key 3 2,
          cur_iter_data = 0, cur_prng_draws = 0, cur_iter_itune = itune_dataset env,
          cur_step = None\<rparr>"
  from training_phase_iter_data[OF okh, of env config 1 steps1 s0 "[]"] obtain s1 body1 where
    r1: "training_phase env config (instruction_tune_hooks config) 1 (next_iter_data env) steps1 s0 [] =
       Inr (s1, body1)"
    and m1: "markers body1 = step_markers 1 steps1"
    and t1: "trained body1 = zip steps1 (map (iter_data env) [cur_iter_data s0..<cur_iter_data s0 + length steps1])"
    and f1: "cur_iter_data s1 = cur_iter_data s0 + length steps1"
      "cur_prng_draws s1 = cur_prng_draws s0" "cur_iter_itune s1 = cur_iter_itune s0"
    and e1: "steps1 = [] \<longrightarrow> cur_step s1 = cur_step s0"
    and n1: "steps1 \<noteq> [] \<longrightarrow> (\<exists>l t. cur_step s1 = Some (last steps1, l, t))"
    by auto
  have ne1: "0 < ul2r_steps \<longleftrightarrow> steps1 \<noteq> []"
    by (auto simp add: steps1 py_range_def)
  obtain saved1 :: "('m, 'o, 'k, 'b) event list" where
    sv1: "(if ul2r_steps > 0 then save_checkpoint s1 ''ul2r_finished'' else Inr []) = Inr saved1"
    and ms1: "markers saved1 = (if 0 < ul2r_steps then [Checkpoint ''ul2r_finished'' (last steps1)] else [])"
    and ts1: "trained saved1 = []"
  proof (cases "0 < ul2r_steps")
    case True
    with ne1 n1 obtain l t where "cur_step s1 = Some (last steps1, l, t)" by blast
    from save_checkpoint_bound[OF this, of "''ul2r_finished''"] True that show ?thesis by auto
  next
    case False
    with that show ?thesis by simp
  qed
  have d0: "cur_prng_draws s1 = 0"
    and it0: "cur_iter_itune s1 = drop (train_batch_size config * instruction_batches_before config env 0) (itune_dataset env)"
    and dat0: "cur_iter_data s1 = length steps1 + (0 - instruction_batches_before config env 0)"
    and en0: "train_batch_size config * (instruction_batches_before config env 0 + length steps2)
                   \<le> length (itune_dataset env)"
    using f1 enough by (simp_all add: s0_def instruction_batches_before_def)
  from training_phase_batch_sampler[OF okh d0 it0 dat0 en0, of "body1 @ saved1"]
  obtain s2 body2 where
    r2: "training_phase env config (instruction_tune_hooks config) 2
           (batch_sampler env config (itune_key_of config env)) steps2 s1 (body1 @ saved1) =
         Inr (s2, (body1 @ saved1) @ body2)"
    and m2: "markers body2 = step_markers 2 steps2"
    and t2: "trained body2 = zip steps2 (map (phase2_batch config env (length steps1)) [0..<0 + length steps2])"
    and e2: "steps2 = [] \<longrightarrow> cur_step s2 = cur_step s1"
    and n2: "steps2 \<noteq> [] \<longrightarrow> (\<exists>l t. cur_step s2 = Some (last steps2, l, t))"
    by blast
  have "\<exists>l t. cur_step s2 = Some (last (steps1 @ steps2), l, t)"
    using some e1 n1 e2 n2 by (cases "steps2 = []") auto
  then obtain l t where "cur_step s2 = Some (last (steps1 @ steps2), l, t)" by blast
  from save_checkpoint_bound[OF this, of "''instruction_tuned''"]
  obtain saved2 :: "('m, 'o, 'k, 'b) event list" where
    sv2: "save_checkpoint s2 ''instruction_tuned'' = Inr saved2"
    and ms2: "markers saved2 = [Checkpoint ''instruction_tuned'' (last (steps1 @ steps2))]"
    and ts2: "trained saved2 = []"
    by blast
  have ik: "itune_key_of config env = jrandom_split env key 3 1"
    by (simp add: itune_key_of_def key_def)
  have "instruction_tune_main config env = Inr (body1 @ saved1 @ body2 @ saved2)"
    using r1 sv1 r2[unfolded ik] sv2
    by (simp add: instruction_tune_main_def Let_def u steps1[symmetric]
        steps2[symmetric] key_def[symmetric] model_def[symmetric] s0_def[symmetric])
  moreover have "markers (body1 @ saved1 @ body2 @ saved2) =
       step_markers 1 steps1 @
       (if 0 < ul2r_steps then [Checkpoint ''ul2r_finished'' (last steps1)] else []) @
       step_markers 2 steps2 @ [Checkpoint ''instruction_tuned'' (last (steps1 @ steps2))]"
    by (simp only: markers_append m1 ms1 m2 ms2)
  moreover have "trained (body1 @ saved1 @ body2 @ saved2) =
       zip steps1 (map (iter_data env) [0..<length steps1]) @
       zip steps2 (map (phase2_batch config env (length steps1)) [0..<length steps2])"
    using t1 ts1 t2 ts2 by (simp add: trained_append s0_def)
  ultimately show ?thesis by blast
qed

lemma two_phase_steps:
  "int_of_float_product 10 (1 / 2) = Inr 5" "py_range 0 5 = [0, 1, 2, 3, 4]"
  "py_range 5 10 = [5, 6, 7, 8, 9]"
  by (simp_all add: int_of_float_product_10_half py_range_def upto.simps)

lemma instruction_tune_main_ten_steps:
  fixes env :: "('m, 'o, 'k, 'b, 'e, 'd) instruction_tune_env"
  assumes "num_train_steps config = 10" and "ul2r_phase_fraction config = 1 / 2"
    and "steps_per_eval config \<noteq> 0"
    and "train_batch_size config * 5 \<le> length (itune_dataset env)"
  shows "\<exists>trace. instruction_tune_main config env = Inr trace \<and>
     markers trace =
       [Trained 0, Phase 1 0, Trained 1, Phase 1 1, Trained 2, Phase 1 2, Trained 3, Phase 1 3,
        Trained 4, Phase 1 4, Checkpoint ''ul2r_finished'' 4,
        Trained 5, Phase 2 5, Trained 6, Phase 2 6, Trained 7, Phase 2 7, Trained 8, Phase 2 8,
        Trained 9, Phase 2 9, Checkpoint ''instruction_tuned'' 9]"
proof -
  have u: "int_of_float_product (num_train_steps config) (ul2r_phase_fraction config) = Inr 5"
    using two_phase_steps(1) by (simp add: assms(1,2))
  have s2: "[5, 6, 7, 8, 9] = py_range 5 (num_train_steps config)"
    by (simp add: assms(1) two_phase_steps(3))
  have s1: "[0, 1, 2, 3, 4] = py_range 0 5"
    by (simp add: two_phase_steps(2))
  from instruction_tune_main_run[OF assms(3) u s1 s2, of env] assms(4)
  obtain trace where "instruction_tune_main config env = Inr trace"
    and "markers trace =
       step_markers 1 [0, 1, 2, 3, 4] @
       (if (0::int) < 5 then [Checkpoint ''ul2r_finished'' (last [0, 1, 2, 3, 4])] else []) @
       step_markers 2 [5, 6, 7, 8, 9] @ [Checkpoint ''instruction_tuned'' (last ([0, 1, 2, 3, 4] @ [5, 6, 7, 8, 9]))]"
    by auto
  then show ?thesis
    by (simp add: step_markers_def)
qed

lemma example_tune_facts:
  "num_train_steps example_tune_config = 10" "ul2r_phase_fraction example_tune_config = 1 / 2"
  "steps_per_eval example_tune_config \<noteq> 0"
  "train_batch_size example_tune_config * 5 \<le> length (itune_dataset example_tune_env)"
  by (simp_all add: example_tune_config_def example_tune_env_def)

text \<open>
  Claim C6, as amended. With \<open>num_train_steps = 10\<close> and \<open>ul2r_phase_fraction = 0.5\<close>
  (hooks of non-zero cadence, and instruction examples for five batches), the run performs
  exactly the steps 0 to 4 in phase 1, each logged with phase 1, then saves a checkpoint
  tagged \<open>ul2r_finished\<close> on the StepInfo of step 4, then performs exactly the steps 5 to 9
  in phase 2, each logged with phase 2, and ends with a checkpoint tagged
  \<open>instruction_tuned\<close>. The claim as stated names the tag \<open>phase-boundary\<close>, which the
  program never uses: the counterexample below evaluates the tags of the scenario.
\<close>

theorem two_phase_scenario:
  fixes env :: "('m, 'o, 'k, 'b, 'e, 'd) instruction_tune_env"
  assumes "num_train_steps config = 10" and "ul2r_phase_fraction config = 1 / 2"
    and "steps_per_eval config \<noteq> 0"
    and "train_batch_size config * 5 \<le> length (itune_dataset env)"
  shows "\<exists>trace. instruction_tune_main config env = Inr trace \<and>
     markers trace =
       [Trained 0, Phase 1 0, Trained 1, Phase 1 1, Trained 2, Phase 1 2, Trained 3, Phase 1 3,
        Trained 4, Phase 1 4, Checkpoint ''ul2r_finished'' 4,
        Trained 5, Phase 2 5, Trained 6, Phase 2 6, Trained 7, Phase 2 7, Trained 8, Phase 2 8,
        Trained 9, Phase 2 9, Checkpoint ''instruction_tuned'' 9]"
  using assms by (rule instruction_tune_main_ten_steps)

theorem two_phase_scenario_witness:
  "num_train_steps example_tune_config = 10 \<and> ul2r_phase_fraction example_tune_config = 1 / 2 \<and>
   steps_per_eval example_tune_config \<noteq> 0 \<and>
   train_batch_size example_tune_config * 5 \<le> length (itune_dataset example_tune_env) \<and>
   (\<exists>trace. instruction_tune_main example_tune_config example_tune_env = Inr trace \<and>
     markers trace =
       [Trained 0, Phase 1 0, Trained 1, Phase 1 1, Trained 2, Phase 1 2, Trained 3, Phase 1 3,
        Trained 4, Phase 1 4, Checkpoint ''ul2r_finished'' 4,
        Trained 5, Phase 2 5, Trained 6, Phase 2 6, Trained 7, Phase 2 7, Trained 8, Phase 2 8,
        Trained 9, Phase 2 9, Checkpoint ''instruction_tuned'' 9])"
  using two_phase_scenario[OF example_tune_facts] example_tune_facts by blast

theorem two_phase_scenario_tag_counterexample:
  "num_train_steps example_tune_config = 10 \<and> ul2r_phase_fraction example_tune_config = 1 / 2 \<and>
   map_sum id checkpoint_tags (instruction_tune_main example_tune_config example_tune_env) =
     Inr [''ul2r_finished'', ''instruction_tuned''] \<and>
   ''phase-boundary'' \<notin> set [''ul2r_finished'', ''instruction_tuned'']"
proof -
  from instruction_tune_main_ten_steps[OF example_tune_facts] obtain trace where
    "instruction_tune_main example_tune_config example_tune_env = Inr trace"
    and "checkpoint_tags trace = [''ul2r_finished'', ''instruction_tuned'']"
    by (auto simp: checkpoint_tags_def)
  then show ?thesis
    using example_tune_facts(1,2) by simp
qed

text \<open>
  Claim C7. Phase 1 has \<open>ul2r_steps\<close> steps, \<open>int\<close> of the float product of
  \<open>num_train_steps\<close> and \<open>ul2r_phase_fraction\<close>, and phase 2 the steps from there to
  \<open>num_train_steps\<close>. In a run that reaches phase 2 (hooks of non-zero cadence, instruction
  examples for every phase-2 step), the batch of the \<open>j\<close>-th step of phase 2 is decided by the
  \<open>j\<close>-th uniform draw of the sampler alone: when the draw is strictly below
  \<open>instruction_weight\<close> the batch is built from the next \<open>train_batch_size\<close> unused
  examples of the instruction dataset, otherwise it is the next batch of the iterator that
  phase 1 drew from. One draw is consulted per step; no interleaving schedule is involved.
  (That the draws are independent is a property of numpy's generator, which
  \<open>prng_uniform\<close> stands for.)
\<close>

theorem batch_sampler_coin_flip:
  fixes env :: "('m, 'o, 'k, 'b, 'e, 'd) instruction_tune_env"
  assumes "steps_per_eval config \<noteq> 0"
    and "int_of_float_product (num_train_steps config) (ul2r_phase_fraction config) =
           Inr ul2r_steps"
    and "steps1 = py_range 0 ul2r_steps"
    and "steps2 = py_range ul2r_steps (num_train_steps config)"
    and "steps2 \<noteq> []"
    and "train_batch_size config * length steps2 \<le> length (itune_dataset env)"
  shows "\<exists>trace. instruction_tune_main config env = Inr trace \<and>
     drop (length steps1) (trained trace) =
       zip steps2
         (map (\<lambda>j. if prng_uniform env (itune_key_of config env) j < instruction_weight config
                  then shard_batch env (map (convert_to_decoder_only env)
                         (take (train_batch_size config)
                            (drop (train_batch_size config * instruction_batches_before config env j)
                               (itune_dataset env))))
                  else iter_data env (length steps1 + (j - instruction_batches_before config env j)))
            [0..<length steps2])"
proof -
  have some: "steps1 @ steps2 \<noteq> []"
    using assms(5) by simp
  from instruction_tune_main_run[OF assms(1,2,3,4) some assms(6)] obtain trace where
    r: "instruction_tune_main config env = Inr trace"
    and t: "trained trace =
       zip steps1 (map (iter_data env) [0..<length steps1]) @
       zip steps2 (map (phase2_batch config env (length steps1)) [0..<length steps2])"
    by blast
  have "drop (length steps1) (trained trace) =
        zip steps2 (map (phase2_batch config env (length steps1)) [0..<length steps2])"
    unfolding t by simp
  moreover have "phase2_batch config env (length steps1) =
     (\<lambda>j. if prng_uniform env (itune_key_of config env) j < instruction_weight config
                  then shard_batch env (map (convert_to_decoder_only env)
                         (take (train_batch_size config)
                            (drop (train_batch_size config * instruction_batches_before config env j)
                               (itune_dataset env))))
                  else iter_data env (length steps1 + (j - instruction_batches_before config env j)))"
    by (simp add: fun_eq_iff phase2_batch_def draws_instruction_def)
  ultimately show ?thesis
    using r by simp
qed

lemma example_tune_steps:
  "int_of_float_product (num_train_steps example_tune_config)
     (ul2r_phase_fraction example_tune_config) = Inr 5"
  "[0, 1, 2, 3, 4] = py_range 0 5"
  "[5, 6, 7, 8, 9] = py_range 5 (num_train_steps example_tune_config)"
  using two_phase_steps by (simp_all add: example_tune_config_def)

lemma example_tune_draws:
  "instruction_batches_before example_tune_config example_tune_env 0 = 0"
  "instruction_batches_before example_tune_config example_tune_env (Suc 0) = 1"
  "instruction_batches_before example_tune_config example_tune_env 2 = 1"
  "instruction_batches_before example_tune_config example_tune_env 3 = 2"
  "instruction_batches_before example_tune_config example_tune_env 4 = 2"
  by (simp_all add: instruction_batches_before_def draws_instruction_def example_tune_config_def
      example_tune_env_def upt_rec)

theorem batch_sampler_coin_flip_witness:
  "steps_per_eval example_tune_config \<noteq> 0 \<and>
   int_of_float_product (num_train_steps example_tune_config)
     (ul2r_phase_fraction example_tune_config) = Inr 5 \<and>
   [0, 1, 2, 3, 4] = py_range 0 5 \<and>
   [5, 6, 7, 8, 9] = py_range 5 (num_train_steps example_tune_config) \<and>
   [5, 6, 7, 8, 9 :: int] \<noteq> [] \<and>
   train_batch_size example_tune_config * length [5, 6, 7, 8, 9 :: int]
     \<le> length (itune_dataset example_tune_env) \<and>
   (\<exists>trace. instruction_tune_main example_tune_config example_tune_env = Inr trace \<and>
      drop (length [0, 1, 2, 3, 4 :: int]) (trained trace) =
        [(5, [1100, 1101]), (6, [5]), (7, [1102, 1103]), (8, [6]), (9, [1104, 1105])])"
proof -
  have ne: "[5, 6, 7, 8, 9 :: int] \<noteq> []"
    by simp
  have en: "train_batch_size example_tune_config * length [5, 6, 7, 8, 9 :: int]
     \<le> length (itune_dataset example_tune_env)"
    by (simp add: example_tune_config_def example_tune_env_def)
  have idx: "[0..<length [5, 6, 7, 8, 9 :: int]] = [0, 1, 2, 3, 4]"
    by (simp add: upt_rec)
  from batch_sampler_coin_flip[OF example_tune_facts(3) example_tune_steps ne en]
  obtain trace where r: "instruction_tune_main example_tune_config example_tune_env = Inr trace"
    and t: "drop (length [0, 1, 2, 3, 4 :: int]) (trained trace) =
       zip [5, 6, 7, 8, 9]
         (map (\<lambda>j. if prng_uniform example_tune_env (itune_key_of example_tune_config example_tune_env) j
                        < instruction_weight example_tune_config
                  then shard_batch example_tune_env (map (convert_to_decoder_only example_tune_env)
                         (take (train_batch_size example_tune_config)
                            (drop (train_batch_size example_tune_config *
                                   instruction_batches_before example_tune_config example_tune_env j)
                               (itune_dataset example_tune_env))))
                  else iter_data example_tune_env (length [0, 1, 2, 3, 4 :: int] +
                         (j - instruction_batches_before example_tune_config example_tune_env j)))
            [0..<length [5, 6, 7, 8, 9 :: int]])"
    by blast
  have "drop (length [0, 1, 2, 3, 4 :: int]) (trained trace) =
        [(5, [1100, 1101]), (6, [5]), (7, [1102, 1103]), (8, [6]), (9, [1104, 1105])]"
    unfolding t idx
    by (simp add: example_tune_draws) (simp add: example_tune_config_def example_tune_env_def)
  with r example_tune_facts(3) example_tune_steps ne en show ?thesis
    by blast
qed

end
